theory Spec2Isabelle
  imports Complex_Main
begin

section \<open>JavaScript values used by the deposit pages\<close>

text \<open>
  A thrown value is either an \<open>Error\<close> instance, of which the handlers read
  \<open>err.message\<close>, or some other value, of which \<open>initializeConfig\<close> reads
  \<open>String(err)\<close>.
\<close>

datatype js_exn = Error (message: string) | NonError (to_string: string)

text \<open>
  The numbers the duration field goes through. \<open>Num n\<close> is a finite number with the
  integer value \<open>n\<close>; the rounding of a double to 53 significant bits is not modelled
  (it keeps the sign and keeps zero apart from non-zero), its overflow to an infinity is.
\<close>

datatype jsnum = NaN | Num int | PosInf | NegInf

definition to_double :: "int \<Rightarrow> jsnum" where
  "to_double n =
     (if n \<ge> 2 ^ 1024 - 2 ^ 970 then PosInf
      else if n \<le> - (2 ^ 1024 - 2 ^ 970) then NegInf
      else Num n)"

fun js_isNaN :: "jsnum \<Rightarrow> bool" where
  "js_isNaN NaN = True"
| "js_isNaN _ = False"

text \<open>\<open>x > k\<close> and \<open>x < k\<close> for an integer literal \<open>k\<close>; both are false on NaN.\<close>

fun js_gt :: "jsnum \<Rightarrow> int \<Rightarrow> bool" where
  "js_gt NaN k = False"
| "js_gt (Num n) k = (n > k)"
| "js_gt PosInf k = True"
| "js_gt NegInf k = False"

fun js_lt :: "jsnum \<Rightarrow> int \<Rightarrow> bool" where
  "js_lt NaN k = False"
| "js_lt (Num n) k = (n < k)"
| "js_lt PosInf k = False"
| "js_lt NegInf k = True"

text \<open>\<open>x * k\<close> for an integer literal \<open>k\<close>.\<close>

fun js_times :: "jsnum \<Rightarrow> int \<Rightarrow> jsnum" where
  "js_times NaN k = NaN"
| "js_times (Num n) k = to_double (n * k)"
| "js_times PosInf k = (if k > 0 then PosInf else if k < 0 then NegInf else NaN)"
| "js_times NegInf k = (if k > 0 then NegInf else if k < 0 then PosInf else NaN)"

subsection \<open>parseInt\<close>

text \<open>
  \<open>parseInt(string)\<close> with no radix, on strings of 8-bit characters: leading white
  space is skipped, one sign is read, a \<open>0x\<close> prefix selects radix 16, the longest run of
  digits is converted and the rest of the string is ignored; no digit at all gives NaN.
  The white space is the ASCII one (space, tab, line feed, vertical tab, form feed, carriage
  return); the no-break space, the byte order mark and the other Unicode spaces that
  JavaScript also skips are not modelled.
\<close>

definition is_white_space :: "char \<Rightarrow> bool" where
  "is_white_space c = (c \<in> set [CHR '' '', CHR 0x09, CHR 0x0A, CHR 0x0B, CHR 0x0C, CHR 0x0D])"

definition digit_value :: "char \<Rightarrow> nat option" where
  "digit_value c =
     map_of
       [(CHR ''0'', 0), (CHR ''1'', 1), (CHR ''2'', 2), (CHR ''3'', 3), (CHR ''4'', 4),
        (CHR ''5'', 5), (CHR ''6'', 6), (CHR ''7'', 7), (CHR ''8'', 8), (CHR ''9'', 9),
        (CHR ''a'', 10), (CHR ''b'', 11), (CHR ''c'', 12), (CHR ''d'', 13), (CHR ''e'', 14),
        (CHR ''f'', 15), (CHR ''A'', 10), (CHR ''B'', 11), (CHR ''C'', 12), (CHR ''D'', 13),
        (CHR ''E'', 14), (CHR ''F'', 15)] c"

definition is_digit :: "nat \<Rightarrow> char \<Rightarrow> bool" where
  "is_digit radix c = (case digit_value c of None \<Rightarrow> False | Some d \<Rightarrow> d < radix)"

definition digits_value :: "nat \<Rightarrow> string \<Rightarrow> int" where
  "digits_value radix z = foldl (\<lambda>a c. a * int radix + int (the (digit_value c))) 0 z"

definition parseInt :: "string \<Rightarrow> jsnum" where
  "parseInt s =
     (let s1 = dropWhile is_white_space s;
          sign = (if take 1 s1 = ''-'' then - 1 else 1);
          s2 = (if take 1 s1 = ''-'' \<or> take 1 s1 = ''+'' then drop 1 s1 else s1);
          radix = (if take 2 s2 = ''0x'' \<or> take 2 s2 = ''0X'' then 16 else 10);
          s3 = (if take 2 s2 = ''0x'' \<or> take 2 s2 = ''0X'' then drop 2 s2 else s2);
          z = takeWhile (is_digit radix) s3
      in if z = [] then NaN else to_double (sign * digits_value radix z))"

subsection \<open>String.prototype.includes\<close>

fun starts_with :: "string \<Rightarrow> string \<Rightarrow> bool" where
  "starts_with s [] = True"
| "starts_with [] (c # t) = False"
| "starts_with (d # s) (c # t) = (d = c \<and> starts_with s t)"

fun str_includes :: "string \<Rightarrow> string \<Rightarrow> bool" where
  "str_includes [] t = (t = [])"
| "str_includes (c # s) t = (starts_with (c # s) t \<or> str_includes s t)"

section \<open>The collaborators: wallet, backend, web3 library, cluster\<close>

text \<open>A \<open>PublicKey\<close> object is represented by its base58 rendering.\<close>

datatype pubkey = PublicKey (toBase58: string)

text \<open>One entry of \<open>keys\<close> and one instruction, as the backend's JSON describes them.\<close>

record key_descriptor =
  kd_pubkey :: string
  kd_isSigner :: bool
  kd_isWritable :: bool

record descriptor =
  d_programId :: string
  d_keys :: "key_descriptor list"
  d_data :: string

text \<open>The arguments and the fields of a \<open>TransactionInstruction\<close>.\<close>

record account_meta =
  pubkey :: pubkey
  isSigner :: bool
  isWritable :: bool

record instruction =
  programId :: pubkey
  keys :: "account_meta list"
  data :: "nat list"

text \<open>A \<open>Transaction\<close>: \<open>new Transaction()\<close> has no instruction, no blockhash, no payer.\<close>

record transaction =
  instructions :: "instruction list"
  recentBlockhash :: "string option"
  feePayer :: "pubkey option"

definition new_Transaction :: transaction where
  "new_Transaction = \<lparr>instructions = [], recentBlockhash = None, feePayer = None\<rparr>"

definition tx_add :: "instruction \<Rightarrow> transaction \<Rightarrow> transaction" where
  "tx_add ix tx = tx\<lparr>instructions := instructions tx @ [ix]\<rparr>"

record blockhash_info =
  blockhash :: string
  lastValidBlockHeight :: nat

record send_options =
  skipPreflight :: bool
  preflightCommitment :: string

text \<open>The value \<open>confirmTransaction\<close> resolves to; \<open>err\<close> is the on-chain error, if any.\<close>

record signature_result =
  err :: "string option"

text \<open>The selected \<open>File\<close>; \<open>file.size\<close> is an unsigned number of bytes.\<close>

record js_file =
  file_name :: string
  file_size :: nat

text \<open>The parsed body of a backend response; \<open>message\<close> is read and only logged.\<close>

record body =
  b_error :: "string option"
  b_instructions :: "descriptor list option"

record response =
  ok :: bool
  json :: "js_exn + body"

text \<open>The three requests the pages send.\<close>

datatype request =
  DepositJson (rq_publicKey: string) (rq_cid: string) (rq_size: int) (rq_duration: int) (rq_depositAmount: rat)
| UploadForm (rq_file: js_file) (rq_durationSeconds: jsnum) (rq_publicKey: string)
| InitJson (rq_adminPubkey: string)

datatype confirm_arg =
  Strategy (cf_signature: string) (cf_blockhash: string) (cf_lastValidBlockHeight: nat)
| Signature string

text \<open>
  What the world outside the component answers during one run of a handler: the wallet
  hook, the backend, the constructors of the web3 library that can throw, and the RPC
  calls of the \<open>Connection\<close>. \<open>Buffer.from(s, "base64")\<close> returns bytes for every
  string and never throws.
\<close>

record world =
  wallet_publicKey :: "pubkey option"
  wallet_signTransaction :: "(transaction \<Rightarrow> js_exn + transaction) option"
  fetch :: "request \<Rightarrow> js_exn + response"
  PublicKey_new :: "string \<Rightarrow> js_exn + pubkey"
  Buffer_from_base64 :: "string \<Rightarrow> nat list"
  getLatestBlockhash :: "js_exn + blockhash_info"
  serialize :: "transaction \<Rightarrow> js_exn + nat list"
  sendRawTransaction :: "nat list \<Rightarrow> send_options \<Rightarrow> js_exn + string"
  confirmTransaction :: "confirm_arg \<Rightarrow> js_exn + signature_result"

text \<open>Every call a handler makes on a collaborator or on a state setter, in order.\<close>

datatype event =
  SetStatus string
| SetIsLoading bool
| ConsoleLog
| ConsoleError
| Fetch request
| ResJson
| GetLatestBlockhash string
| NewPublicKey string
| BufferFrom string
| NewTransaction
| TransactionAdd instruction
| SignTransaction transaction
| Serialize
| SendRawTransaction "nat list" send_options
| ConfirmTransaction confirm_arg string

text \<open>How a \<open>try\<close> block ends: it throws, or it runs to its end or to a \<open>return\<close>.\<close>

datatype outcome = Thrown js_exn | Done

type_synonym 'a traced = "event list \<times> 'a"

definition emit :: "event list \<Rightarrow> 'a traced \<Rightarrow> 'a traced" where
  "emit es r = (es @ fst r, snd r)"


section \<open>Component state\<close>

text \<open>
  \<open>status\<close> and \<open>isLoading\<close> are the state of both pages; the upload page
  (\<^verbatim>\<open>src/unnamed/part_001\<close>) adds the selected file and the duration in days.
\<close>

record ui_state =
  status :: string
  isLoading :: bool

record upload_state = ui_state +
  sel_file :: "js_file option"
  durationDays :: jsnum

definition initial_page_state :: ui_state where
  "initial_page_state = \<lparr>status = [], isLoading = False\<rparr>"

definition initial_upload_state :: upload_state where
  "initial_upload_state =
     \<lparr>status = [], isLoading = False, sel_file = None, durationDays = Num 7\<rparr>"

text \<open>The state setters among the events of a run, applied in order.\<close>

fun apply_event :: "event \<Rightarrow> 'a ui_state_scheme \<Rightarrow> 'a ui_state_scheme" where
  "apply_event (SetStatus s) st = st\<lparr>status := s\<rparr>"
| "apply_event (SetIsLoading b) st = st\<lparr>isLoading := b\<rparr>"
| "apply_event _ st = st"

fun run_ui :: "event list \<Rightarrow> 'a ui_state_scheme \<Rightarrow> 'a ui_state_scheme" where
  "run_ui [] st = st"
| "run_ui (e # es) st = run_ui es (apply_event e st)"

section \<open>Status texts\<close>

text \<open>The two emoji of the status lines, as their UTF-8 bytes (U+274C and U+2705).\<close>

definition cross_mark :: string where
  "cross_mark = [CHR 0xE2, CHR 0x9D, CHR 0x8C]"

definition check_mark :: string where
  "check_mark = [CHR 0xE2, CHR 0x9C, CHR 0x85]"

definition backend_error_status :: "body \<Rightarrow> string" where
  "backend_error_status errorData =
     cross_mark @ '' Backend error: '' @
       (case b_error errorData of
          None \<Rightarrow> ''Unknown backend error''
        | Some m \<Rightarrow> if m = [] then ''Unknown backend error'' else m)"

definition no_instruction_status :: string where
  "no_instruction_status = cross_mark @ '' No instruction data received from backend''"

definition confirmed_status :: "string \<Rightarrow> string" where
  "confirmed_status signature = check_mark @ '' Transaction confirmed: '' @ signature"

definition failed_status :: "string \<Rightarrow> string" where
  "failed_status errorMessage = cross_mark @ '' Failed: '' @ errorMessage"

section \<open>Decoding, building, signing\<close>

text \<open>
  \<open>keys.map(key => ({pubkey: new PublicKey(key.pubkey), ...}))\<close>: the keys are converted
  in order and the first constructor that throws ends the conversion.
\<close>

fun decode_keys :: "world \<Rightarrow> key_descriptor list \<Rightarrow> (js_exn + account_meta list) traced" where
  "decode_keys w [] = ([], Inr [])"
| "decode_keys w (k # ks) =
     emit [NewPublicKey (kd_pubkey k)]
       (case PublicKey_new w (kd_pubkey k) of
          Inl e \<Rightarrow> ([], Inl e)
        | Inr p \<Rightarrow>
            (case decode_keys w ks of
               (es, Inl e) \<Rightarrow> (es, Inl e)
             | (es, Inr ms) \<Rightarrow>
                 (es, Inr (\<lparr>pubkey = p, isSigner = kd_isSigner k,
                            isWritable = kd_isWritable k\<rparr> # ms))))"

text \<open>
  \<open>new TransactionInstruction({programId: ..., keys: ..., data: ...})\<close> on one
  descriptor; the three properties are evaluated in this order.
\<close>

definition decode_instruction :: "world \<Rightarrow> descriptor \<Rightarrow> (js_exn + instruction) traced" where
  "decode_instruction w d =
     emit [NewPublicKey (d_programId d)]
       (case PublicKey_new w (d_programId d) of
          Inl e \<Rightarrow> ([], Inl e)
        | Inr pid \<Rightarrow>
            (case decode_keys w (d_keys d) of
               (es, Inl e) \<Rightarrow> (es, Inl e)
             | (es, Inr ks) \<Rightarrow>
                 (es @ [BufferFrom (d_data d)],
                  Inr \<lparr>programId = pid, keys = ks,
                       data = Buffer_from_base64 w (d_data d)\<rparr>)))"

text \<open>
  \<open>handleDeposit\<close>, from the instruction to the transaction: the blockhash and the
  fee payer are set on a new transaction, then the instruction is added.
\<close>

definition build_deposit_tx ::
  "world \<Rightarrow> pubkey \<Rightarrow> descriptor \<Rightarrow> blockhash_info \<Rightarrow> (js_exn + transaction) traced" where
  "build_deposit_tx w pk d bh =
     (case decode_instruction w d of
        (es, Inl e) \<Rightarrow> (es, Inl e)
      | (es, Inr depositIx) \<Rightarrow>
          (es @ [NewTransaction, TransactionAdd depositIx],
           Inr (tx_add depositIx
                  (new_Transaction\<lparr>recentBlockhash := Some (blockhash bh),
                                   feePayer := Some pk\<rparr>))))"

text \<open>Calling \<open>wallet.signTransaction!\<close> when the wallet has none is a TypeError.\<close>

definition not_a_function :: js_exn where
  "not_a_function = Error ''wallet.signTransaction is not a function''"

definition deposit_send_options :: send_options where
  "deposit_send_options = \<lparr>skipPreflight = False, preflightCommitment = ''confirmed''\<rparr>"

text \<open>
  \<open>handleDeposit\<close>, from \<open>setStatus("Signing and sending...")\<close> to the end of
  \<open>confirmTransaction\<close>; the same text in both pages. The value that
  \<open>confirmTransaction\<close> resolves to is not read.
\<close>

definition sign_send_confirm ::
  "world \<Rightarrow> transaction \<Rightarrow> blockhash_info \<Rightarrow> (js_exn + string) traced" where
  "sign_send_confirm w tx bh =
     emit [SetStatus ''Signing and sending...'']
       (case wallet_signTransaction w of
          None \<Rightarrow> ([], Inl not_a_function)
        | Some sign \<Rightarrow>
            emit [SignTransaction tx]
              (case sign tx of
                 Inl e \<Rightarrow> ([], Inl e)
               | Inr signedTx \<Rightarrow>
                   emit [Serialize]
                     (case serialize w signedTx of
                        Inl e \<Rightarrow> ([], Inl e)
                      | Inr raw \<Rightarrow>
                          emit [SendRawTransaction raw deposit_send_options]
                            (case sendRawTransaction w raw deposit_send_options of
                               Inl e \<Rightarrow> ([], Inl e)
                             | Inr signature \<Rightarrow>
                                 emit [SetStatus ''Confirming transaction...'',
                                       ConfirmTransaction
                                         (Strategy signature (blockhash bh)
                                            (lastValidBlockHeight bh)) ''confirmed'']
                                   (case confirmTransaction w
                                           (Strategy signature (blockhash bh)
                                              (lastValidBlockHeight bh)) of
                                      Inl e \<Rightarrow> ([], Inl e)
                                    | Inr r \<Rightarrow> ([], Inr signature))))))"

text \<open>\<open>catch\<close> and \<open>finally\<close> around a \<open>try\<close> block whose handler sets one status.\<close>

definition catch_finally :: "(js_exn \<Rightarrow> string) \<Rightarrow> outcome traced \<Rightarrow> event list" where
  "catch_finally handler r =
     (case snd r of
        Thrown e \<Rightarrow> fst r @ [ConsoleError, SetStatus (handler e)] @ [SetIsLoading False]
      | Done \<Rightarrow> fst r @ [SetIsLoading False])"

text \<open>
  \<open>handleDeposit\<close>, from \<open>setStatus("Building transaction...")\<close> to the end of
  \<open>confirmTransaction\<close>, on the first descriptor of the response: the latest blockhash
  is requested, then \<open>instructions[0]\<close> is decoded, then the transaction is built,
  signed, sent and confirmed. The result is the signature.
\<close>

definition build_sign_confirm ::
  "world \<Rightarrow> pubkey \<Rightarrow> descriptor \<Rightarrow> (js_exn + string) traced" where
  "build_sign_confirm w pk d =
     emit [SetStatus ''Building transaction...'', GetLatestBlockhash ''confirmed'']
       (case getLatestBlockhash w of
          Inl e \<Rightarrow> ([], Inl e)
        | Inr latestBlockhash \<Rightarrow>
            (case build_deposit_tx w pk d latestBlockhash of
               (es, Inl e) \<Rightarrow> (es, Inl e)
             | (es, Inr tx) \<Rightarrow> emit es (sign_send_confirm w tx latestBlockhash)))"

section \<open>The upload page (\<^verbatim>\<open>src/unnamed/part_001\<close>)\<close>

definition handleFileChange :: "js_file list option \<Rightarrow> upload_state \<Rightarrow> upload_state" where
  "handleFileChange files st =
     (case files of
        None \<Rightarrow> st
      | Some [] \<Rightarrow> st
      | Some (f # fs) \<Rightarrow> st\<lparr>sel_file := Some f\<rparr>)"

definition handleDurationChange :: "string \<Rightarrow> upload_state \<Rightarrow> upload_state" where
  "handleDurationChange v st =
     (let days = parseInt v
      in if \<not> js_isNaN days \<and> js_gt days 0 then st\<lparr>durationDays := days\<rparr> else st)"

text \<open>The \<open>try\<close> block of \<open>handleDeposit\<close>, after the response has been parsed.\<close>

definition upload_after_response :: "world \<Rightarrow> pubkey \<Rightarrow> body \<Rightarrow> outcome traced" where
  "upload_after_response w pk b =
     (case b_instructions b of
        None \<Rightarrow> ([SetStatus no_instruction_status], Done)
      | Some [] \<Rightarrow> ([SetStatus no_instruction_status], Done)
      | Some (d # ds) \<Rightarrow>
          (case build_sign_confirm w pk d of
             (es, Inl e) \<Rightarrow> (es, Thrown e)
           | (es, Inr signature) \<Rightarrow>
               (es @ [SetStatus (confirmed_status signature)], Done)))"

text \<open>
  The form the upload page posts: the file, the days converted to seconds, the wallet's
  address.
\<close>

definition upload_request :: "pubkey \<Rightarrow> js_file \<Rightarrow> jsnum \<Rightarrow> request" where
  "upload_request pk f days = UploadForm f (js_times days 86400) (toBase58 pk)"

definition upload_try :: "world \<Rightarrow> pubkey \<Rightarrow> js_file \<Rightarrow> jsnum \<Rightarrow> outcome traced" where
  "upload_try w pk f days =
     emit [Fetch (upload_request pk f days)]
       (case fetch w (upload_request pk f days) of
          Inl e \<Rightarrow> ([], Thrown e)
        | Inr res \<Rightarrow>
            if \<not> ok res
            then emit [ResJson]
                   (case json res of
                      Inl e \<Rightarrow> ([], Thrown e)
                    | Inr errorData \<Rightarrow>
                        ([ConsoleError, SetStatus (backend_error_status errorData)], Done))
            else emit [ResJson]
                   (case json res of
                      Inl e \<Rightarrow> ([], Thrown e)
                    | Inr b \<Rightarrow> upload_after_response w pk b))"

definition upload_error_message :: "js_exn \<Rightarrow> string" where
  "upload_error_message e = (case e of Error m \<Rightarrow> m | NonError s \<Rightarrow> ''Unknown error'')"

definition handleDeposit :: "world \<Rightarrow> upload_state \<Rightarrow> event list" where
  "handleDeposit w st =
     (case wallet_publicKey w of
        None \<Rightarrow> [SetStatus ''Connect your wallet first.'']
      | Some pk \<Rightarrow>
          (case sel_file st of
             None \<Rightarrow> [SetStatus ''Please select a file first.'']
           | Some f \<Rightarrow>
               if js_lt (durationDays st) 1
               then [SetStatus ''Duration must be at least 1 day.'']
               else [SetIsLoading True,
                     SetStatus ''Uploading file & fetching deposit instruction...''] @
                    catch_finally (\<lambda>e. failed_status (upload_error_message e))
                      (upload_try w pk f (durationDays st))))"

text \<open>The \<open>disabled\<close> attribute of the submit button.\<close>

definition upload_submit_disabled :: "world \<Rightarrow> upload_state \<Rightarrow> bool" where
  "upload_submit_disabled w st =
     (wallet_publicKey w = None \<or> isLoading st \<or> sel_file st = None)"

section \<open>The fixed-request page (\<^verbatim>\<open>src/src/app/page.tsx\<close>)\<close>

definition page_deposit_request :: "pubkey \<Rightarrow> request" where
  "page_deposit_request pk =
     DepositJson (toBase58 pk) ''bafyha1eigdyrzt5x3y4f5l5labfasqa1527gq1vz5c6uvvqc6a6''
       10043 30 (4 / 10)"

definition page_after_response :: "world \<Rightarrow> pubkey \<Rightarrow> body \<Rightarrow> outcome traced" where
  "page_after_response w pk b =
     emit [ConsoleLog]
       (case b_instructions b of
          None \<Rightarrow> ([SetStatus no_instruction_status], Done)
        | Some [] \<Rightarrow> ([SetStatus no_instruction_status], Done)
        | Some (d # ds) \<Rightarrow>
            (case build_sign_confirm w pk d of
               (es, Inl e) \<Rightarrow> (es, Thrown e)
             | (es, Inr signature) \<Rightarrow>
                 (es @ [SetStatus (confirmed_status signature), ConsoleLog], Done)))"

definition page_try :: "world \<Rightarrow> pubkey \<Rightarrow> outcome traced" where
  "page_try w pk =
     emit [Fetch (page_deposit_request pk)]
       (case fetch w (page_deposit_request pk) of
          Inl e \<Rightarrow> ([], Thrown e)
        | Inr res \<Rightarrow>
            if \<not> ok res
            then emit [ResJson]
                   (case json res of
                      Inl e \<Rightarrow> ([], Thrown e)
                    | Inr errorData \<Rightarrow>
                        ([ConsoleError, SetStatus (backend_error_status errorData)], Done))
            else emit [ResJson]
                   (case json res of
                      Inl e \<Rightarrow> ([], Thrown e)
                    | Inr b \<Rightarrow> page_after_response w pk b))"

text \<open>The \<open>catch\<close> block of the page: the message classes are tried in this order.\<close>

definition page_error_message :: "js_exn \<Rightarrow> string" where
  "page_error_message e =
     (case e of
        NonError s \<Rightarrow> ''Unknown error''
      | Error m \<Rightarrow>
          if str_includes m ''Transaction simulation failed''
          then ''Transaction simulation failed. Check program logs for details.''
          else if str_includes m ''Blockhash not found''
          then ''Transaction expired. Please try again.''
          else if str_includes m ''Insufficient funds''
          then ''Insufficient SOL balance for transaction.''
          else m)"

definition page_handleDeposit :: "world \<Rightarrow> event list" where
  "page_handleDeposit w =
     (case wallet_publicKey w of
        None \<Rightarrow> [SetStatus ''Connect your wallet first.'']
      | Some pk \<Rightarrow>
          [SetIsLoading True, SetStatus ''Fetching deposit instruction...''] @
          catch_finally (\<lambda>e. failed_status (page_error_message e)) (page_try w pk))"

subsection \<open>initializeConfig\<close>

definition init_build_sign_confirm ::
  "world \<Rightarrow> pubkey \<Rightarrow> (transaction \<Rightarrow> js_exn + transaction) \<Rightarrow> descriptor \<Rightarrow>
     (js_exn + string) traced" where
  "init_build_sign_confirm w pk sign d =
     emit [GetLatestBlockhash ''confirmed'']
       (case getLatestBlockhash w of
          Inl e \<Rightarrow> ([], Inl e)
        | Inr latestBlockhash \<Rightarrow>
            (case decode_instruction w d of
               (es, Inl e) \<Rightarrow> (es, Inl e)
             | (es, Inr initIx) \<Rightarrow>
                 emit (es @ [NewTransaction, TransactionAdd initIx,
                             SignTransaction
                               ((tx_add initIx new_Transaction)
                                  \<lparr>feePayer := Some pk,
                                   recentBlockhash := Some (blockhash latestBlockhash)\<rparr>)])
                   (case sign ((tx_add initIx new_Transaction)
                                 \<lparr>feePayer := Some pk,
                                  recentBlockhash := Some (blockhash latestBlockhash)\<rparr>) of
                      Inl e \<Rightarrow> ([], Inl e)
                    | Inr signedTx \<Rightarrow>
                        emit [Serialize]
                          (case serialize w signedTx of
                             Inl e \<Rightarrow> ([], Inl e)
                           | Inr raw \<Rightarrow>
                               emit [SendRawTransaction raw deposit_send_options]
                                 (case sendRawTransaction w raw deposit_send_options of
                                    Inl e \<Rightarrow> ([], Inl e)
                                  | Inr sig \<Rightarrow>
                                      emit [ConfirmTransaction (Signature sig) ''confirmed'']
                                        (case confirmTransaction w (Signature sig) of
                                           Inl e \<Rightarrow> ([], Inl e)
                                         | Inr r \<Rightarrow> ([], Inr sig)))))))"

definition init_backend_error_status :: "body \<Rightarrow> string" where
  "init_backend_error_status errorData =
     cross_mark @ '' Backend error: '' @
       (case b_error errorData of
          None \<Rightarrow> ''Unknown error''
        | Some m \<Rightarrow> if m = [] then ''Unknown error'' else m)"

definition init_after_response ::
  "world \<Rightarrow> pubkey \<Rightarrow> (transaction \<Rightarrow> js_exn + transaction) \<Rightarrow> body \<Rightarrow>
     outcome traced" where
  "init_after_response w pk sign b =
     (case b_instructions b of
        None \<Rightarrow>
          ([SetStatus (cross_mark @ '' No instructions received from backend'')], Done)
      | Some [] \<Rightarrow>
          ([SetStatus (cross_mark @ '' No instructions received from backend'')], Done)
      | Some (d # ds) \<Rightarrow>
          (case init_build_sign_confirm w pk sign d of
             (es, Inl e) \<Rightarrow> (es, Thrown e)
           | (es, Inr sig) \<Rightarrow>
               (es @ [SetStatus (check_mark @ '' Config initialized: '' @ sig)], Done)))"

definition init_try ::
  "world \<Rightarrow> pubkey \<Rightarrow> (transaction \<Rightarrow> js_exn + transaction) \<Rightarrow> outcome traced" where
  "init_try w pk sign =
     emit [Fetch (InitJson (toBase58 pk))]
       (case fetch w (InitJson (toBase58 pk)) of
          Inl e \<Rightarrow> ([], Thrown e)
        | Inr res \<Rightarrow>
            if \<not> ok res
            then emit [ResJson]
                   (case json res of
                      Inl e \<Rightarrow> ([], Thrown e)
                    | Inr errorData \<Rightarrow>
                        ([SetStatus (init_backend_error_status errorData)], Done))
            else emit [ResJson]
                   (case json res of
                      Inl e \<Rightarrow> ([], Thrown e)
                    | Inr b \<Rightarrow> init_after_response w pk sign b))"

definition init_error_message :: "js_exn \<Rightarrow> string" where
  "init_error_message e = (case e of Error m \<Rightarrow> m | NonError s \<Rightarrow> s)"

definition initializeConfig :: "world \<Rightarrow> event list" where
  "initializeConfig w =
     (case wallet_publicKey w of
        None \<Rightarrow> [SetStatus ''Connect wallet first to initialize config'']
      | Some pk \<Rightarrow>
          (case wallet_signTransaction w of
             None \<Rightarrow> [SetStatus ''Connect wallet first to initialize config'']
           | Some sign \<Rightarrow>
               [SetIsLoading True, SetStatus ''Fetching init config instruction...''] @
               catch_finally
                 (\<lambda>e. cross_mark @ '' Failed to init config: '' @ init_error_message e)
                 (init_try w pk sign)))"

text \<open>The \<open>disabled\<close> attribute of the page's two buttons.\<close>

definition page_submit_disabled :: "world \<Rightarrow> ui_state \<Rightarrow> bool" where
  "page_submit_disabled w st = (wallet_publicKey w = None \<or> isLoading st)"

definition page_init_disabled :: "world \<Rightarrow> ui_state \<Rightarrow> bool" where
  "page_init_disabled w st = (isLoading st \<or> wallet_publicKey w = None)"

section \<open>Sample collaborators\<close>

text \<open>
  A wallet, a backend and a cluster that all answer well, for evaluating the handlers:
  two addresses are accepted by the \<open>PublicKey\<close> constructor, the backend returns one
  descriptor, the wallet signs, the cluster accepts and confirms. Any other string is
  refused with the error the constructor throws for base58 text that does not decode to
  32 bytes.
\<close>

definition sample_wallet_key :: pubkey where
  "sample_wallet_key = PublicKey ''11111111111111111111111111111111''"

definition sample_PublicKey_new :: "string \<Rightarrow> js_exn + pubkey" where
  "sample_PublicKey_new s =
     (if s = ''11111111111111111111111111111111''
         \<or> s = ''SysvarRent111111111111111111111111111111111''
      then Inr (PublicKey s)
      else Inl (Error ''Invalid public key input''))"

definition sample_descriptor :: descriptor where
  "sample_descriptor =
     \<lparr>d_programId = ''SysvarRent111111111111111111111111111111111'',
      d_keys = [\<lparr>kd_pubkey = ''11111111111111111111111111111111'',
                 kd_isSigner = True, kd_isWritable = True\<rparr>],
      d_data = ''AQID''\<rparr>"

definition sample_Buffer_from :: "string \<Rightarrow> nat list" where
  "sample_Buffer_from s =
     (if s = ''AQID'' then [1, 2, 3] else if s = ''BAUG'' then [4, 5, 6] else [])"

definition sample_response :: "descriptor list option \<Rightarrow> response" where
  "sample_response ds = \<lparr>ok = True, json = Inr \<lparr>b_error = None, b_instructions = ds\<rparr>\<rparr>"

definition sample_world :: world where
  "sample_world =
     \<lparr>wallet_publicKey = Some sample_wallet_key,
      wallet_signTransaction = Some (\<lambda>tx. Inr tx),
      fetch = (\<lambda>req. Inr (sample_response (Some [sample_descriptor]))),
      PublicKey_new = sample_PublicKey_new,
      Buffer_from_base64 = sample_Buffer_from,
      getLatestBlockhash = Inr \<lparr>blockhash = ''GHtXQBsoZHVnNFa9YevAzFr17DJjgHXk3ycTKD5xD3Zi'',
                                lastValidBlockHeight = 3090\<rparr>,
      serialize = (\<lambda>tx. Inr [1, 0, 1, 3]),
      sendRawTransaction = (\<lambda>raw opts. Inr ''5VERv8NMvzbJMEkV8xnrLkEaWRtSz9CosKDYjCJjBRnb''),
      confirmTransaction = (\<lambda>a. Inr \<lparr>err = None\<rparr>)\<rparr>"

definition sample_file :: js_file where
  "sample_file = \<lparr>file_name = ''report.pdf'', file_size = 10043\<rparr>"

definition sample_upload_state :: upload_state where
  "sample_upload_state = handleFileChange (Some [sample_file]) initial_upload_state"

definition second_descriptor :: descriptor where
  "second_descriptor = sample_descriptor\<lparr>d_data := ''BAUG''\<rparr>"

definition two_descriptor_world :: world where
  "two_descriptor_world =
     sample_world
       \<lparr>fetch := (\<lambda>req. Inr (sample_response (Some [sample_descriptor, second_descriptor])))\<rparr>"

definition sample_instruction :: instruction where
  "sample_instruction =
     \<lparr>programId = PublicKey ''SysvarRent111111111111111111111111111111111'',
      keys = [\<lparr>pubkey = PublicKey ''11111111111111111111111111111111'',
               isSigner = True, isWritable = True\<rparr>],
      data = [1, 2, 3]\<rparr>"

definition sample_tx :: transaction where
  "sample_tx =
     \<lparr>instructions = [sample_instruction],
      recentBlockhash = Some ''GHtXQBsoZHVnNFa9YevAzFr17DJjgHXk3ycTKD5xD3Zi'',
      feePayer = Some sample_wallet_key\<rparr>"

section \<open>Properties of traces\<close>

text \<open>The stages an event belongs to.\<close>

fun is_fetch_event :: "event \<Rightarrow> bool" where
  "is_fetch_event (Fetch req) = True"
| "is_fetch_event ResJson = True"
| "is_fetch_event _ = False"

fun is_blockhash_event :: "event \<Rightarrow> bool" where
  "is_blockhash_event (GetLatestBlockhash c) = True"
| "is_blockhash_event _ = False"

fun is_decode_event :: "event \<Rightarrow> bool" where
  "is_decode_event (NewPublicKey s) = True"
| "is_decode_event (BufferFrom s) = True"
| "is_decode_event _ = False"

fun is_build_event :: "event \<Rightarrow> bool" where
  "is_build_event NewTransaction = True"
| "is_build_event (TransactionAdd ix) = True"
| "is_build_event _ = False"

fun is_sign_event :: "event \<Rightarrow> bool" where
  "is_sign_event (SignTransaction tx) = True"
| "is_sign_event _ = False"

fun is_broadcast_event :: "event \<Rightarrow> bool" where
  "is_broadcast_event (SendRawTransaction raw opts) = True"
| "is_broadcast_event _ = False"

fun is_confirm_event :: "event \<Rightarrow> bool" where
  "is_confirm_event (ConfirmTransaction a c) = True"
| "is_confirm_event _ = False"

text \<open>Requests that leave the browser: to the backend or to the cluster.\<close>

definition is_network_event :: "event \<Rightarrow> bool" where
  "is_network_event e =
     (is_fetch_event e \<or> is_blockhash_event e \<or> is_broadcast_event e \<or> is_confirm_event e)"

text \<open>The suspension points of a run: the network requests and the wallet's prompt.\<close>

definition is_io_event :: "event \<Rightarrow> bool" where
  "is_io_event e = (is_network_event e \<or> is_sign_event e)"

text \<open>\<open>all_before P Q tr\<close>: in \<open>tr\<close>, every \<open>P\<close> event comes before every \<open>Q\<close> event.\<close>

fun all_before :: "(event \<Rightarrow> bool) \<Rightarrow> (event \<Rightarrow> bool) \<Rightarrow> event list \<Rightarrow> bool" where
  "all_before P Q [] = True"
| "all_before P Q (e # es) =
     ((Q e \<longrightarrow> \<not> P e \<and> (\<forall>x \<in> set es. \<not> P x)) \<and> all_before P Q es)"

text \<open>
  \<open>guard_held g tr\<close>: starting with \<open>isLoading = g\<close>, \<open>isLoading\<close> is true at every
  suspension point of \<open>tr\<close>.
\<close>

fun guard_held :: "bool \<Rightarrow> event list \<Rightarrow> bool" where
  "guard_held g [] = True"
| "guard_held g (e # es) =
     (case e of
        SetIsLoading b \<Rightarrow> guard_held b es
      | _ \<Rightarrow> (is_io_event e \<longrightarrow> g) \<and> guard_held g es)"

text \<open>The stages that come after the blockhash request in the pages.\<close>

definition is_later_stage_event :: "event \<Rightarrow> bool" where
  "is_later_stage_event e =
     (is_decode_event e \<or> is_build_event e \<or> is_sign_event e \<or> is_broadcast_event e
      \<or> is_confirm_event e)"

text \<open>The transaction \<open>handleDeposit\<close> hands to the wallet, built from one instruction.\<close>

definition deposit_tx :: "pubkey \<Rightarrow> blockhash_info \<Rightarrow> instruction \<Rightarrow> transaction" where
  "deposit_tx pk bh ix =
     \<lparr>instructions = [ix], recentBlockhash = Some (blockhash bh), feePayer = Some pk\<rparr>"

section \<open>A session of the upload page\<close>

text \<open>
  The state of the component changes only through its handlers: choosing a file, typing
  into the duration field, and pressing the submit button, which applies the state
  setters of the run.
\<close>

datatype ui_action =
  ChooseFile "js_file list option"
| TypeDuration string
| ClickDeposit world

fun upload_step :: "upload_state \<Rightarrow> ui_action \<Rightarrow> upload_state" where
  "upload_step st (ChooseFile files) = handleFileChange files st"
| "upload_step st (TypeDuration v) = handleDurationChange v st"
| "upload_step st (ClickDeposit w) = run_ui (handleDeposit w st) st"

definition upload_session :: "ui_action list \<Rightarrow> upload_state" where
  "upload_session acts = foldl upload_step initial_upload_state acts"

section \<open>Notions of the specification used to state its claims\<close>

text \<open>
  The specification's "valid base64": the standard alphabet in groups of four characters,
  with at most two \<open>=\<close> at the end. The pages have no such check.
\<close>

definition is_base64_char :: "char \<Rightarrow> bool" where
  "is_base64_char c =
     (c \<in> set ''ABCDEFGHIJKLMNOPQRSTUVWXYZabcdefghijklmnopqrstuvwxyz0123456789+/'')"

definition spec_valid_base64 :: "string \<Rightarrow> bool" where
  "spec_valid_base64 s =
     (length s mod 4 = 0
      \<and> list_all is_base64_char (takeWhile (\<lambda>c. c \<noteq> CHR ''='') s)
      \<and> length (dropWhile (\<lambda>c. c \<noteq> CHR ''='') s) \<le> 2
      \<and> list_all (\<lambda>c. c = CHR ''='') (dropWhile (\<lambda>c. c \<noteq> CHR ''='') s))"


section \<open>More sample collaborators\<close>

definition disconnected_world :: world where
  "disconnected_world = sample_world\<lparr>wallet_publicKey := None\<rparr>"

definition empty_response_world :: world where
  "empty_response_world = sample_world\<lparr>fetch := (\<lambda>req. Inr (sample_response (Some [])))\<rparr>"

definition offline_world :: world where
  "offline_world = sample_world\<lparr>fetch := (\<lambda>req. Inl (Error ''Failed to fetch''))\<rparr>"

definition bad_payload_descriptor :: descriptor where
  "bad_payload_descriptor = sample_descriptor\<lparr>d_data := ''!!!''\<rparr>"

definition bad_payload_world :: world where
  "bad_payload_world =
     sample_world\<lparr>fetch := (\<lambda>req. Inr (sample_response (Some [bad_payload_descriptor])))\<rparr>"

definition bad_address_descriptor :: descriptor where
  "bad_address_descriptor =
     sample_descriptor
       \<lparr>d_keys := [\<lparr>kd_pubkey = ''tooShort'', kd_isSigner = False,
                    kd_isWritable = True\<rparr>]\<rparr>"

definition bad_address_world :: world where
  "bad_address_world =
     sample_world\<lparr>fetch := (\<lambda>req. Inr (sample_response (Some [bad_address_descriptor])))\<rparr>"



text \<open>
  The events a \<open>try\<close> block of the pages can produce: anything but a change of
  \<open>isLoading\<close>, and a broadcast only with the options the pages write.
\<close>

definition is_plain_event :: "event \<Rightarrow> bool" where
  "is_plain_event e =
     ((\<exists>s. e = SetStatus s) \<or> e = ConsoleError \<or> e = ConsoleLog \<or> (\<exists>req. e = Fetch req)
      \<or> e = ResJson \<or> (\<exists>c. e = GetLatestBlockhash c) \<or> is_decode_event e
      \<or> is_build_event e \<or> is_sign_event e \<or> e = Serialize
      \<or> (\<exists>raw. e = SendRawTransaction raw deposit_send_options) \<or> is_confirm_event e)"

definition second_instruction :: instruction where
  "second_instruction = sample_instruction\<lparr>data := [4, 5, 6]\<rparr>"

definition sample_actions :: "ui_action list" where
  "sample_actions =
     [ChooseFile (Some [sample_file]), TypeDuration ''-3'', TypeDuration ''abc'',
      TypeDuration ''30'']"

section \<open>Lemmas on the stages\<close>

subsection \<open>State setters and event order\<close>

lemma run_ui_append: "run_ui (xs @ ys) st = run_ui ys (run_ui xs st)"
  by (induction xs arbitrary: st) simp_all

lemma all_before_append:
  "all_before P Q (xs @ ys) =
     (all_before P Q xs \<and> all_before P Q ys \<and> ((\<exists>x \<in> set xs. Q x) \<longrightarrow> (\<forall>y \<in> set ys. \<not> P y)))"
  by (induction xs) auto

lemma all_before_none: "(\<forall>x \<in> set xs. \<not> P x) \<Longrightarrow> all_before P Q xs"
  by (induction xs) auto

subsection \<open>The events of each stage\<close>

lemma decode_keys_events:
  "decode_keys w ks = (es, r) \<Longrightarrow> e \<in> set es \<Longrightarrow> \<exists>k \<in> set ks. e = NewPublicKey (kd_pubkey k)"
  by (induction ks arbitrary: es r) (auto simp: emit_def split: sum.splits prod.splits)

lemma decode_instruction_events:
  "decode_instruction w d = (es, r) \<Longrightarrow> e \<in> set es \<Longrightarrow>
     e = NewPublicKey (d_programId d) \<or> (\<exists>k \<in> set (d_keys d). e = NewPublicKey (kd_pubkey k))
       \<or> e = BufferFrom (d_data d)"
  by (auto simp: decode_instruction_def emit_def split: sum.splits prod.splits dest: decode_keys_events)

lemma decode_instruction_is_decode:
  "decode_instruction w d = (es, r) \<Longrightarrow> e \<in> set es \<Longrightarrow> is_decode_event e"
  by (auto dest: decode_instruction_events)

lemma build_deposit_tx_events:
  "build_deposit_tx w pk d bh = (es, r) \<Longrightarrow> e \<in> set es \<Longrightarrow> is_decode_event e \<or> is_build_event e"
  by (auto simp: build_deposit_tx_def split: sum.splits prod.splits dest: decode_instruction_is_decode)

lemma sign_send_confirm_events:
  "sign_send_confirm w tx bh = (es, r) \<Longrightarrow> e \<in> set es \<Longrightarrow>
     (\<exists>s. e = SetStatus s) \<or> e = SignTransaction tx \<or> e = Serialize
     \<or> (\<exists>raw. e = SendRawTransaction raw deposit_send_options) \<or> is_confirm_event e"
  by (auto simp: sign_send_confirm_def emit_def split: sum.splits prod.splits option.splits)

lemma sign_send_confirm_no_early:
  "sign_send_confirm w tx bh = (es, r) \<Longrightarrow> e \<in> set es \<Longrightarrow>
     \<not> is_blockhash_event e \<and> \<not> is_fetch_event e"
  using sign_send_confirm_events [of w tx bh es r e] by (cases e) auto

lemma build_deposit_tx_no_early:
  "build_deposit_tx w pk d bh = (es, r) \<Longrightarrow> e \<in> set es \<Longrightarrow>
     \<not> is_blockhash_event e \<and> \<not> is_fetch_event e"
  using build_deposit_tx_events [of w pk d bh es r e] by (cases e) auto

lemmas sign_send_confirm_no_early_fst = sign_send_confirm_no_early [OF surjective_pairing]

subsection \<open>The blockhash request comes first\<close>

lemma build_sign_confirm_shape:
  "build_sign_confirm w pk d = (es, r) \<Longrightarrow>
     \<exists>rest. es = SetStatus ''Building transaction...'' # GetLatestBlockhash ''confirmed'' # rest
       \<and> (\<forall>e \<in> set rest. \<not> is_blockhash_event e \<and> \<not> is_fetch_event e)"
  by (auto simp: build_sign_confirm_def emit_def split: sum.splits prod.splits
      dest: build_deposit_tx_no_early sign_send_confirm_no_early_fst)

lemma build_sign_confirm_order:
  assumes "build_sign_confirm w pk d = (es, r)"
  shows "all_before is_blockhash_event is_later_stage_event es
         \<and> all_before is_fetch_event is_blockhash_event es
         \<and> (\<forall>e \<in> set es. \<not> is_fetch_event e)"
proof -
  from build_sign_confirm_shape [OF assms] obtain rest where
    es: "es = SetStatus ''Building transaction...'' # GetLatestBlockhash ''confirmed'' # rest"
    and rest: "\<forall>e \<in> set rest. \<not> is_blockhash_event e \<and> \<not> is_fetch_event e"
    by blast
  show ?thesis
    using rest by (simp add: es is_later_stage_event_def all_before_none)
qed

lemma upload_after_response_order:
  assumes "upload_after_response w pk b = (es, r)"
  shows "all_before is_blockhash_event is_later_stage_event es
         \<and> all_before is_fetch_event is_blockhash_event es
         \<and> (\<forall>e \<in> set es. \<not> is_fetch_event e)"
proof (cases "b_instructions b")
  case None
  with assms show ?thesis by (auto simp: upload_after_response_def is_later_stage_event_def)
next
  case (Some ds)
  show ?thesis
  proof (cases ds)
    case Nil
    with Some assms show ?thesis
      by (auto simp: upload_after_response_def is_later_stage_event_def)
  next
    case (Cons d ds')
    obtain es' r' where bsc: "build_sign_confirm w pk d = (es', r')" by force
    from build_sign_confirm_order [OF bsc] Some Cons assms bsc show ?thesis
      by (auto simp: upload_after_response_def all_before_append is_later_stage_event_def
          split: sum.splits)
  qed
qed

subsection \<open>What is built and signed\<close>

lemma build_deposit_tx_result:
  "build_deposit_tx w pk d bh = (es, Inr tx) \<Longrightarrow>
     \<exists>ix. snd (decode_instruction w d) = Inr ix \<and> tx = deposit_tx pk bh ix"
  by (auto simp: build_deposit_tx_def tx_add_def new_Transaction_def deposit_tx_def
      split: sum.splits prod.splits)

lemma build_deposit_tx_events2:
  "build_deposit_tx w pk d bh = (es, r) \<Longrightarrow> e \<in> set es \<Longrightarrow>
     e \<in> set (fst (decode_instruction w d)) \<or> e = NewTransaction
     \<or> (\<exists>ix. e = TransactionAdd ix \<and> snd (decode_instruction w d) = Inr ix)"
  by (auto simp: build_deposit_tx_def split: sum.splits prod.splits)

lemma build_sign_confirm_events:
  assumes "build_sign_confirm w pk d = (es, r)" and "e \<in> set es"
  shows "(\<exists>s. e = SetStatus s) \<or> e = GetLatestBlockhash ''confirmed''
     \<or> e \<in> set (fst (decode_instruction w d)) \<or> e = NewTransaction
     \<or> (\<exists>ix. e = TransactionAdd ix \<and> snd (decode_instruction w d) = Inr ix)
     \<or> (\<exists>ix bh. e = SignTransaction (deposit_tx pk bh ix)
           \<and> snd (decode_instruction w d) = Inr ix \<and> getLatestBlockhash w = Inr bh)
     \<or> e = Serialize \<or> (\<exists>raw. e = SendRawTransaction raw deposit_send_options)
     \<or> is_confirm_event e"
proof (cases "getLatestBlockhash w")
  case (Inl x)
  with assms show ?thesis by (auto simp: build_sign_confirm_def emit_def)
next
  case (Inr bh)
  obtain es1 r1 where b: "build_deposit_tx w pk d bh = (es1, r1)" by force
  show ?thesis
  proof (cases r1)
    case (Inl x)
    with assms Inr b have "e = SetStatus ''Building transaction...''
        \<or> e = GetLatestBlockhash ''confirmed'' \<or> e \<in> set es1"
      by (auto simp: build_sign_confirm_def emit_def)
    with build_deposit_tx_events2 [OF b] show ?thesis by blast
  next
    case r1: (Inr tx)
    from build_deposit_tx_result [OF b [unfolded r1]] obtain ix where
      ix: "snd (decode_instruction w d) = Inr ix" and tx: "tx = deposit_tx pk bh ix" by blast
    from assms Inr b r1 have "e = SetStatus ''Building transaction...''
        \<or> e = GetLatestBlockhash ''confirmed'' \<or> e \<in> set es1
        \<or> e \<in> set (fst (sign_send_confirm w tx bh))"
      by (auto simp: build_sign_confirm_def emit_def)
    moreover have "e \<in> set (fst (sign_send_confirm w tx bh)) \<Longrightarrow>
        (\<exists>s. e = SetStatus s) \<or> e = SignTransaction tx \<or> e = Serialize
        \<or> (\<exists>raw. e = SendRawTransaction raw deposit_send_options) \<or> is_confirm_event e"
      by (rule sign_send_confirm_events [OF surjective_pairing])
    ultimately show ?thesis
      using build_deposit_tx_events2 [OF b] ix tx Inr by blast
  qed
qed

lemma page_after_response_order:
  assumes "page_after_response w pk b = (es, r)"
  shows "all_before is_blockhash_event is_later_stage_event es
         \<and> all_before is_fetch_event is_blockhash_event es"
proof (cases "b_instructions b")
  case None
  with assms show ?thesis
    by (auto simp: page_after_response_def emit_def is_later_stage_event_def)
next
  case (Some ds)
  show ?thesis
  proof (cases ds)
    case Nil
    with Some assms show ?thesis
      by (auto simp: page_after_response_def emit_def is_later_stage_event_def)
  next
    case (Cons d ds')
    obtain es' r' where bsc: "build_sign_confirm w pk d = (es', r')" by force
    from build_sign_confirm_order [OF bsc] Some Cons assms bsc show ?thesis
      by (auto simp: page_after_response_def emit_def all_before_append
          is_later_stage_event_def split: sum.splits)
  qed
qed

lemma upload_try_order:
  "all_before is_blockhash_event is_later_stage_event (fst (upload_try w pk f days))
   \<and> all_before is_fetch_event is_blockhash_event (fst (upload_try w pk f days))"
  using upload_after_response_order [OF surjective_pairing]
  by (auto simp: upload_try_def emit_def is_later_stage_event_def split: sum.splits)

lemma page_try_order:
  "all_before is_blockhash_event is_later_stage_event (fst (page_try w pk))
   \<and> all_before is_fetch_event is_blockhash_event (fst (page_try w pk))"
  using page_after_response_order [OF surjective_pairing]
  by (auto simp: page_try_def emit_def is_later_stage_event_def split: sum.splits)

lemma catch_finally_order:
  assumes "all_before P Q (fst r)"
    and "\<And>s. \<not> P (SetStatus s)" "\<And>b. \<not> P (SetIsLoading b)" "\<not> P ConsoleError"
    and "\<And>s. \<not> Q (SetStatus s)" "\<And>b. \<not> Q (SetIsLoading b)" "\<not> Q ConsoleError"
  shows "all_before P Q (catch_finally h r)"
  using assms by (cases "snd r") (simp_all add: catch_finally_def all_before_append)

subsection \<open>The sample run\<close>

lemma sample_run:
  "handleDeposit sample_world sample_upload_state =
    [SetIsLoading True, SetStatus ''Uploading file & fetching deposit instruction...'',
     Fetch (UploadForm sample_file (Num 604800) ''11111111111111111111111111111111''),
     ResJson, SetStatus ''Building transaction...'', GetLatestBlockhash ''confirmed'',
     NewPublicKey ''SysvarRent111111111111111111111111111111111'',
     NewPublicKey ''11111111111111111111111111111111'', BufferFrom ''AQID'',
     NewTransaction, TransactionAdd sample_instruction,
     SetStatus ''Signing and sending...'', SignTransaction sample_tx, Serialize,
     SendRawTransaction [1, 0, 1, 3] deposit_send_options,
     SetStatus ''Confirming transaction...'',
     ConfirmTransaction
       (Strategy ''5VERv8NMvzbJMEkV8xnrLkEaWRtSz9CosKDYjCJjBRnb''
          ''GHtXQBsoZHVnNFa9YevAzFr17DJjgHXk3ycTKD5xD3Zi'' 3090) ''confirmed'',
     SetStatus (confirmed_status ''5VERv8NMvzbJMEkV8xnrLkEaWRtSz9CosKDYjCJjBRnb''),
     SetIsLoading False]"
  by (simp add: handleDeposit_def sample_world_def sample_upload_state_def handleFileChange_def
      initial_upload_state_def catch_finally_def upload_try_def upload_request_def emit_def sample_response_def
      upload_after_response_def build_sign_confirm_def build_deposit_tx_def
      decode_instruction_def sample_descriptor_def sample_PublicKey_new_def
      sign_send_confirm_def sample_wallet_key_def to_double_def sample_tx_def
      sample_instruction_def tx_add_def new_Transaction_def sample_Buffer_from_def)

subsection \<open>Runs with a parsed response\<close>

lemma catch_finally_emit: "catch_finally h (emit es r) = es @ catch_finally h r"
  by (simp add: catch_finally_def emit_def split: outcome.splits)

lemma handleDeposit_response:
  assumes "wallet_publicKey w = Some pk" "sel_file st = Some f" "\<not> js_lt (durationDays st) 1"
    and "fetch w (upload_request pk f (durationDays st)) = Inr res" "ok res" "json res = Inr b"
  shows "handleDeposit w st =
     [SetIsLoading True, SetStatus ''Uploading file & fetching deposit instruction...'',
      Fetch (upload_request pk f (durationDays st)), ResJson] @
     catch_finally (\<lambda>e. failed_status (upload_error_message e)) (upload_after_response w pk b)"
  using assms by (simp add: handleDeposit_def upload_try_def catch_finally_emit)

lemma page_handleDeposit_response:
  assumes "wallet_publicKey w = Some pk"
    and "fetch w (page_deposit_request pk) = Inr res" "ok res" "json res = Inr b"
  shows "page_handleDeposit w =
     [SetIsLoading True, SetStatus ''Fetching deposit instruction...'',
      Fetch (page_deposit_request pk), ResJson] @
     catch_finally (\<lambda>e. failed_status (page_error_message e)) (page_after_response w pk b)"
  using assms by (simp add: page_handleDeposit_def page_try_def catch_finally_emit)

lemma handleDeposit_fetch_throws:
  assumes "wallet_publicKey w = Some pk" "sel_file st = Some f" "\<not> js_lt (durationDays st) 1"
    and "fetch w (upload_request pk f (durationDays st)) = Inl e"
  shows "handleDeposit w st =
     [SetIsLoading True, SetStatus ''Uploading file & fetching deposit instruction...'',
      Fetch (upload_request pk f (durationDays st)), ConsoleError,
      SetStatus (failed_status (upload_error_message e)), SetIsLoading False]"
  using assms by (simp add: handleDeposit_def upload_try_def catch_finally_def emit_def)

lemma page_handleDeposit_fetch_throws:
  assumes "wallet_publicKey w = Some pk" and "fetch w (page_deposit_request pk) = Inl e"
  shows "page_handleDeposit w =
     [SetIsLoading True, SetStatus ''Fetching deposit instruction...'',
      Fetch (page_deposit_request pk), ConsoleError,
      SetStatus (failed_status (page_error_message e)), SetIsLoading False]"
  using assms by (simp add: page_handleDeposit_def page_try_def catch_finally_def emit_def)

lemma no_instruction_not_failed: "no_instruction_status \<noteq> failed_status m"
  by (simp add: no_instruction_status_def failed_status_def)

lemma upload_after_response_empty:
  "b_instructions b = None \<or> b_instructions b = Some [] \<Longrightarrow>
     upload_after_response w pk b = ([SetStatus no_instruction_status], Done)"
  by (auto simp: upload_after_response_def)

lemma page_after_response_empty:
  "b_instructions b = None \<or> b_instructions b = Some [] \<Longrightarrow>
     page_after_response w pk b = ([ConsoleLog, SetStatus no_instruction_status], Done)"
  by (auto simp: page_after_response_def emit_def)

lemmas sample_defs =
  sample_world_def sample_upload_state_def handleFileChange_def initial_upload_state_def
  sample_response_def sample_descriptor_def sample_PublicKey_new_def sample_wallet_key_def
  sample_tx_def sample_instruction_def sample_Buffer_from_def sample_file_def
  initial_page_state_def

subsection \<open>No run changes \<open>isLoading\<close> inside its \<open>try\<close> block\<close>

lemma is_plain_simps:
  "is_plain_event (SetStatus s)" "is_plain_event ConsoleError" "is_plain_event ConsoleLog"
  "is_plain_event (Fetch req)" "is_plain_event ResJson" "\<not> is_plain_event (SetIsLoading b)"
  "is_plain_event (SendRawTransaction raw opts) = (opts = deposit_send_options)"
  by (auto simp: is_plain_event_def)

lemma build_sign_confirm_plain:
  assumes "build_sign_confirm w pk d = (es, r)" and "e \<in> set es"
  shows "is_plain_event e"
  using build_sign_confirm_events [OF assms]
    decode_instruction_is_decode [OF surjective_pairing, of e w d]
  by (auto simp: is_plain_event_def)

lemma upload_after_response_plain:
  "upload_after_response w pk b = (es, r) \<Longrightarrow> e \<in> set es \<Longrightarrow> is_plain_event e"
  by (auto simp: upload_after_response_def is_plain_simps
      split: option.splits list.splits prod.splits sum.splits dest: build_sign_confirm_plain)

lemma page_after_response_plain:
  "page_after_response w pk b = (es, r) \<Longrightarrow> e \<in> set es \<Longrightarrow> is_plain_event e"
  by (auto simp: page_after_response_def emit_def is_plain_simps
      split: option.splits list.splits prod.splits sum.splits dest: build_sign_confirm_plain)

lemma upload_try_plain: "e \<in> set (fst (upload_try w pk f days)) \<Longrightarrow> is_plain_event e"
  by (auto simp: upload_try_def emit_def is_plain_simps split: sum.splits if_splits
      dest: upload_after_response_plain [OF surjective_pairing])

lemma page_try_plain: "e \<in> set (fst (page_try w pk)) \<Longrightarrow> is_plain_event e"
  by (auto simp: page_try_def emit_def is_plain_simps split: sum.splits if_splits
      dest: page_after_response_plain [OF surjective_pairing])

lemma init_build_sign_confirm_plain:
  "init_build_sign_confirm w pk sign d = (es, r) \<Longrightarrow> e \<in> set es \<Longrightarrow> is_plain_event e"
  by (auto simp: init_build_sign_confirm_def emit_def is_plain_event_def
      split: sum.splits prod.splits dest: decode_instruction_is_decode)

lemma init_after_response_plain:
  "init_after_response w pk sign b = (es, r) \<Longrightarrow> e \<in> set es \<Longrightarrow> is_plain_event e"
  by (auto simp: init_after_response_def is_plain_simps
      split: option.splits list.splits prod.splits sum.splits
      dest: init_build_sign_confirm_plain)

lemma init_try_plain: "e \<in> set (fst (init_try w pk sign)) \<Longrightarrow> is_plain_event e"
  by (auto simp: init_try_def emit_def is_plain_simps split: sum.splits if_splits
      dest: init_after_response_plain [OF surjective_pairing])

lemma catch_finally_events:
  "e \<in> set (catch_finally h r) \<Longrightarrow>
     e \<in> set (fst r) \<or> e = ConsoleError \<or> (\<exists>s. e = SetStatus s) \<or> e = SetIsLoading False"
  by (auto simp: catch_finally_def split: outcome.splits)

lemma guard_held_plain:
  "\<forall>e \<in> set es. is_plain_event e \<Longrightarrow> guard_held True (es @ [SetIsLoading False])"
proof (induction es)
  case Nil
  show ?case by simp
next
  case (Cons e es)
  then have "is_plain_event e" by simp
  then show ?case using Cons by (cases e) (simp_all add: is_plain_simps)
qed

lemma catch_finally_shape:
  assumes "\<And>x. x \<in> set (fst r) \<Longrightarrow> is_plain_event x"
  shows "\<exists>es. catch_finally h r = es @ [SetIsLoading False] \<and> (\<forall>e \<in> set es. is_plain_event e)"
proof (cases "snd r")
  case (Thrown e)
  then have "catch_finally h r = (fst r @ [ConsoleError, SetStatus (h e)]) @ [SetIsLoading False]"
    by (simp add: catch_finally_def)
  moreover have "\<forall>x \<in> set (fst r @ [ConsoleError, SetStatus (h e)]). is_plain_event x"
    using assms by (auto simp: is_plain_simps)
  ultimately show ?thesis by blast
next
  case Done
  then have "catch_finally h r = fst r @ [SetIsLoading False]"
    by (simp add: catch_finally_def)
  with assms show ?thesis by blast
qed

lemma guarded_run:
  assumes "tr = SetIsLoading True # SetStatus s # es @ [SetIsLoading False]"
    and "\<forall>e \<in> set es. is_plain_event e"
  shows "guard_held g tr \<and> hd tr = SetIsLoading True \<and> last tr = SetIsLoading False
    \<and> \<not> isLoading (run_ui tr st)"
  using assms guard_held_plain [of es] by (simp add: run_ui_append)

lemma handleDeposit_cases:
  "(\<exists>s. handleDeposit w st = [SetStatus s])
   \<or> (\<exists>s es. handleDeposit w st = SetIsLoading True # SetStatus s # es @ [SetIsLoading False]
         \<and> (\<forall>e \<in> set es. is_plain_event e))"
proof -
  have "\<exists>es. catch_finally h (upload_try w pk f days) = es @ [SetIsLoading False]
           \<and> (\<forall>e \<in> set es. is_plain_event e)" for h pk f days
    by (rule catch_finally_shape) (rule upload_try_plain)
  then show ?thesis
    by (auto simp: handleDeposit_def split: option.splits)
qed

lemma page_handleDeposit_cases:
  "(\<exists>s. page_handleDeposit w = [SetStatus s])
   \<or> (\<exists>s es. page_handleDeposit w = SetIsLoading True # SetStatus s # es @ [SetIsLoading False]
         \<and> (\<forall>e \<in> set es. is_plain_event e))"
proof -
  have "\<exists>es. catch_finally h (page_try w pk) = es @ [SetIsLoading False]
           \<and> (\<forall>e \<in> set es. is_plain_event e)" for h pk
    by (rule catch_finally_shape) (rule page_try_plain)
  then show ?thesis
    by (auto simp: page_handleDeposit_def split: option.splits)
qed

lemma guarded_trace:
  assumes "(\<exists>s. tr = [SetStatus s])
   \<or> (\<exists>s es. tr = SetIsLoading True # SetStatus s # es @ [SetIsLoading False]
         \<and> (\<forall>e \<in> set es. is_plain_event e))"
  shows "guard_held g tr
     \<and> (\<forall>e \<in> set tr. is_io_event e \<longrightarrow> hd tr = SetIsLoading True)
     \<and> (SetIsLoading True \<in> set tr
          \<longrightarrow> last tr = SetIsLoading False \<and> \<not> isLoading (run_ui tr st))"
  using assms
proof (elim disjE exE conjE)
  fix s assume "tr = [SetStatus s]"
  then show ?thesis by (simp add: is_io_event_def is_network_event_def)
next
  fix s es
  assume tr: "tr = SetIsLoading True # SetStatus s # es @ [SetIsLoading False]"
    and es: "\<forall>e \<in> set es. is_plain_event e"
  from guarded_run [OF tr es, of g st] show ?thesis by simp
qed

subsection \<open>Only the first descriptor reaches the transaction\<close>

lemma build_sign_confirm_member:
  assumes "e \<in> set (fst (build_sign_confirm w pk d))"
  shows "(is_decode_event e \<longrightarrow> e \<in> set (fst (decode_instruction w d)))
     \<and> (\<forall>tx. e = SignTransaction tx
          \<longrightarrow> (\<exists>ix. snd (decode_instruction w d) = Inr ix \<and> instructions tx = [ix]))
     \<and> (\<forall>ix. e = TransactionAdd ix \<longrightarrow> snd (decode_instruction w d) = Inr ix)"
  using build_sign_confirm_events [OF surjective_pairing assms]
    decode_instruction_is_decode [OF surjective_pairing, of e w d]
  by (cases e) (auto simp: deposit_tx_def)

lemma upload_response_events:
  assumes "wallet_publicKey w = Some pk" "sel_file st = Some f" "\<not> js_lt (durationDays st) 1"
    and "fetch w (upload_request pk f (durationDays st)) = Inr res" "ok res" "json res = Inr b"
    and "b_instructions b = Some (d # ds)" and "e \<in> set (handleDeposit w st)"
  shows "e \<in> set (fst (build_sign_confirm w pk d)) \<or> (\<exists>s. e = SetStatus s)
     \<or> (\<exists>l. e = SetIsLoading l) \<or> e = ConsoleError \<or> e = ConsoleLog \<or> (\<exists>q. e = Fetch q)
     \<or> e = ResJson"
  using assms(7,8) unfolding handleDeposit_response [OF assms(1-6)]
  by (auto simp: upload_after_response_def catch_finally_def
      split: prod.splits sum.splits outcome.splits)

lemma page_response_events:
  assumes "wallet_publicKey w = Some pk"
    and "fetch w (page_deposit_request pk) = Inr res" "ok res" "json res = Inr b"
    and "b_instructions b = Some (d # ds)" and "e \<in> set (page_handleDeposit w)"
  shows "e \<in> set (fst (build_sign_confirm w pk d)) \<or> (\<exists>s. e = SetStatus s)
     \<or> (\<exists>l. e = SetIsLoading l) \<or> e = ConsoleError \<or> e = ConsoleLog \<or> (\<exists>q. e = Fetch q)
     \<or> e = ResJson"
  using assms(5,6) unfolding page_handleDeposit_response [OF assms(1-4)]
  by (auto simp: page_after_response_def emit_def catch_finally_def
      split: prod.splits sum.splits outcome.splits)

lemma first_descriptor_only:
  assumes "e \<in> set (fst (build_sign_confirm w pk d)) \<or> (\<exists>s. e = SetStatus s)
     \<or> (\<exists>l. e = SetIsLoading l) \<or> e = ConsoleError \<or> e = ConsoleLog \<or> (\<exists>q. e = Fetch q)
     \<or> e = ResJson"
  shows "(is_decode_event e \<longrightarrow> e \<in> set (fst (decode_instruction w d)))
     \<and> (\<forall>tx. e = SignTransaction tx
          \<longrightarrow> (\<exists>ix. snd (decode_instruction w d) = Inr ix \<and> instructions tx = [ix]))"
  using assms build_sign_confirm_member [of e w pk d] by auto

lemma upload_first_descriptor:
  assumes "wallet_publicKey w = Some pk" "sel_file st = Some f" "\<not> js_lt (durationDays st) 1"
    and "fetch w (upload_request pk f (durationDays st)) = Inr res" "ok res" "json res = Inr b"
    and "b_instructions b = Some (d # ds)"
  shows "\<forall>e \<in> set (handleDeposit w st).
          (is_decode_event e \<longrightarrow> e \<in> set (fst (decode_instruction w d)))
          \<and> (\<forall>tx. e = SignTransaction tx
               \<longrightarrow> (\<exists>ix. snd (decode_instruction w d) = Inr ix \<and> instructions tx = [ix]))"
proof
  fix e assume "e \<in> set (handleDeposit w st)"
  from upload_response_events [OF assms this]
  show "(is_decode_event e \<longrightarrow> e \<in> set (fst (decode_instruction w d)))
          \<and> (\<forall>tx. e = SignTransaction tx
               \<longrightarrow> (\<exists>ix. snd (decode_instruction w d) = Inr ix \<and> instructions tx = [ix]))"
    by (rule first_descriptor_only)
qed

lemma page_first_descriptor:
  assumes "wallet_publicKey w = Some pk"
    and "fetch w (page_deposit_request pk) = Inr res" "ok res" "json res = Inr b"
    and "b_instructions b = Some (d # ds)"
  shows "\<forall>e \<in> set (page_handleDeposit w).
          (is_decode_event e \<longrightarrow> e \<in> set (fst (decode_instruction w d)))
          \<and> (\<forall>tx. e = SignTransaction tx
               \<longrightarrow> (\<exists>ix. snd (decode_instruction w d) = Inr ix \<and> instructions tx = [ix]))"
proof
  fix e assume "e \<in> set (page_handleDeposit w)"
  from page_response_events [OF assms this]
  show "(is_decode_event e \<longrightarrow> e \<in> set (fst (decode_instruction w d)))
          \<and> (\<forall>tx. e = SignTransaction tx
               \<longrightarrow> (\<exists>ix. snd (decode_instruction w d) = Inr ix \<and> instructions tx = [ix]))"
    by (rule first_descriptor_only)
qed

lemmas sample_run_defs =
  handleDeposit_def page_handleDeposit_def catch_finally_def upload_try_def page_try_def
  upload_request_def page_deposit_request_def emit_def upload_after_response_def
  page_after_response_def build_sign_confirm_def build_deposit_tx_def decode_instruction_def
  sign_send_confirm_def to_double_def tx_add_def new_Transaction_def

lemma two_descriptor_run:
  "handleDeposit two_descriptor_world sample_upload_state
     = handleDeposit sample_world sample_upload_state"
  by (simp add: two_descriptor_world_def sample_defs sample_run_defs second_descriptor_def)

lemma decode_sample:
  "snd (decode_instruction sample_world sample_descriptor) = Inr sample_instruction"
  by (simp add: decode_instruction_def emit_def sample_defs)

lemma decode_second:
  "snd (decode_instruction sample_world second_descriptor) = Inr second_instruction"
  by (simp add: decode_instruction_def emit_def sample_defs second_descriptor_def
      second_instruction_def)

subsection \<open>Decoding depends on the library alone\<close>

lemma decode_keys_cong:
  "PublicKey_new w = PublicKey_new w' \<Longrightarrow> decode_keys w ks = decode_keys w' ks"
  by (induction ks) (simp_all split: sum.splits)

lemma decode_instruction_cong:
  "PublicKey_new w = PublicKey_new w' \<Longrightarrow> Buffer_from_base64 w = Buffer_from_base64 w' \<Longrightarrow>
     decode_instruction w d = decode_instruction w' d"
  by (simp add: decode_instruction_def decode_keys_cong [of w w'] split: sum.splits)

lemma two_descriptor_world_lib:
  "decode_instruction two_descriptor_world d = decode_instruction sample_world d"
  by (rule decode_instruction_cong) (simp_all add: two_descriptor_world_def)

subsection \<open>When decoding fails\<close>

lemma decode_keys_result:
  "decode_keys w ks = (es, Inr ms) \<Longrightarrow>
     map (\<lambda>k. PublicKey_new w (kd_pubkey k)) ks = map (\<lambda>m. Inr (pubkey m)) ms
     \<and> map kd_isSigner ks = map isSigner ms \<and> map kd_isWritable ks = map isWritable ms"
  by (induction ks arbitrary: es ms) (auto simp: emit_def split: sum.splits prod.splits)

lemma decode_keys_error:
  "decode_keys w ks = (es, Inl e) \<Longrightarrow> \<exists>k \<in> set ks. PublicKey_new w (kd_pubkey k) = Inl e"
  by (induction ks arbitrary: es) (auto simp: emit_def split: sum.splits prod.splits)

lemma decode_keys_bad:
  assumes "k \<in> set ks" and "isl (PublicKey_new w (kd_pubkey k))"
  shows "isl (snd (decode_keys w ks))"
proof (rule ccontr)
  assume "\<not> isl (snd (decode_keys w ks))"
  then obtain es ms where "decode_keys w ks = (es, Inr ms)"
    by (cases "decode_keys w ks"; cases "snd (decode_keys w ks)") auto
  from decode_keys_result [OF this]
  have "map (\<lambda>k. PublicKey_new w (kd_pubkey k)) ks = map (\<lambda>m. Inr (pubkey m)) ms" by simp
  then have "PublicKey_new w (kd_pubkey k) \<in> set (map (\<lambda>m. Inr (pubkey m)) ms)"
    using assms(1) by (metis (no_types, lifting) image_eqI set_map)
  with assms(2) show False by auto
qed

lemma decode_keys_good:
  "\<forall>k \<in> set ks. \<not> isl (PublicKey_new w (kd_pubkey k)) \<Longrightarrow> \<not> isl (snd (decode_keys w ks))"
  by (induction ks) (auto simp: emit_def isl_def split: sum.splits prod.splits)

lemma decode_instruction_error:
  "snd (decode_instruction w d) = Inl e \<Longrightarrow>
     PublicKey_new w (d_programId d) = Inl e
     \<or> (\<exists>k \<in> set (d_keys d). PublicKey_new w (kd_pubkey k) = Inl e)"
  by (auto simp: decode_instruction_def emit_def split: sum.splits prod.splits
      dest: decode_keys_error)

lemma decode_instruction_bad:
  assumes "isl (PublicKey_new w (d_programId d))
     \<or> (\<exists>k \<in> set (d_keys d). isl (PublicKey_new w (kd_pubkey k)))"
  shows "isl (snd (decode_instruction w d))"
proof (cases "PublicKey_new w (d_programId d)")
  case (Inl e)
  then show ?thesis by (simp add: decode_instruction_def emit_def)
next
  case (Inr p)
  with assms obtain k where "k \<in> set (d_keys d)" "isl (PublicKey_new w (kd_pubkey k))"
    by auto
  from decode_keys_bad [OF this] Inr show ?thesis
    by (auto simp: decode_instruction_def emit_def isl_def split: sum.splits prod.splits)
qed

lemma decode_instruction_good:
  "\<not> isl (PublicKey_new w (d_programId d)) \<Longrightarrow>
   \<forall>k \<in> set (d_keys d). \<not> isl (PublicKey_new w (kd_pubkey k)) \<Longrightarrow>
     \<not> isl (snd (decode_instruction w d))"
  using decode_keys_good [of "d_keys d" w]
  by (auto simp: decode_instruction_def emit_def isl_def split: sum.splits prod.splits)

lemma decode_instruction_result:
  "snd (decode_instruction w d) = Inr ix \<Longrightarrow>
     PublicKey_new w (d_programId d) = Inr (programId ix)
     \<and> map (\<lambda>k. PublicKey_new w (kd_pubkey k)) (d_keys d) = map (\<lambda>m. Inr (pubkey m)) (keys ix)
     \<and> map kd_isSigner (d_keys d) = map isSigner (keys ix)
     \<and> map kd_isWritable (d_keys d) = map isWritable (keys ix)
     \<and> data ix = Buffer_from_base64 w (d_data d)"
  by (auto simp: decode_instruction_def emit_def split: sum.splits prod.splits
      dest: decode_keys_result)

lemma build_sign_confirm_decode_fails:
  assumes "getLatestBlockhash w = Inr bh" and "snd (decode_instruction w d) = Inl e"
  shows "build_sign_confirm w pk d =
     (SetStatus ''Building transaction...'' # GetLatestBlockhash ''confirmed''
        # fst (decode_instruction w d), Inl e)"
  using assms
  by (cases "decode_instruction w d")
     (simp add: build_sign_confirm_def build_deposit_tx_def emit_def)

lemma upload_decode_fails:
  assumes "wallet_publicKey w = Some pk" "sel_file st = Some f" "\<not> js_lt (durationDays st) 1"
    and "fetch w (upload_request pk f (durationDays st)) = Inr res" "ok res" "json res = Inr b"
    and "b_instructions b = Some (d # ds)"
    and "getLatestBlockhash w = Inr bh" and "snd (decode_instruction w d) = Inl e"
  shows "handleDeposit w st =
     [SetIsLoading True, SetStatus ''Uploading file & fetching deposit instruction...'',
      Fetch (upload_request pk f (durationDays st)), ResJson,
      SetStatus ''Building transaction...'', GetLatestBlockhash ''confirmed'']
     @ fst (decode_instruction w d)
     @ [ConsoleError, SetStatus (failed_status (upload_error_message e)), SetIsLoading False]"
  unfolding handleDeposit_response [OF assms(1-6)]
  by (simp add: upload_after_response_def assms(7)
      build_sign_confirm_decode_fails [OF assms(8,9)] catch_finally_def)

lemma page_decode_fails:
  assumes "wallet_publicKey w = Some pk"
    and "fetch w (page_deposit_request pk) = Inr res" "ok res" "json res = Inr b"
    and "b_instructions b = Some (d # ds)"
    and "getLatestBlockhash w = Inr bh" and "snd (decode_instruction w d) = Inl e"
  shows "page_handleDeposit w =
     [SetIsLoading True, SetStatus ''Fetching deposit instruction...'',
      Fetch (page_deposit_request pk), ResJson, ConsoleLog,
      SetStatus ''Building transaction...'', GetLatestBlockhash ''confirmed'']
     @ fst (decode_instruction w d)
     @ [ConsoleError, SetStatus (failed_status (page_error_message e)), SetIsLoading False]"
  unfolding page_handleDeposit_response [OF assms(1-4)]
  by (simp add: page_after_response_def assms(5) emit_def
      build_sign_confirm_decode_fails [OF assms(6,7)] catch_finally_def)

lemma decode_failure_run:
  assumes "tr = pre @ fst (decode_instruction w d) @ [ConsoleError, SetStatus s, SetIsLoading False]"
    and "\<forall>e \<in> set pre. \<not> is_build_event e \<and> \<not> is_sign_event e \<and> \<not> is_broadcast_event e"
  shows "status (run_ui tr st) = s
     \<and> (\<forall>e \<in> set tr. \<not> is_build_event e \<and> \<not> is_sign_event e \<and> \<not> is_broadcast_event e)"
proof -
  have "\<not> is_build_event e \<and> \<not> is_sign_event e \<and> \<not> is_broadcast_event e"
    if "e \<in> set (fst (decode_instruction w d))" for e
    using decode_instruction_is_decode [OF surjective_pairing that] by (cases e) simp_all
  then show ?thesis using assms by (auto simp: run_ui_append)
qed

lemma upload_decode_failure_status:
  assumes "wallet_publicKey w = Some pk" "sel_file st = Some f" "\<not> js_lt (durationDays st) 1"
    and "fetch w (upload_request pk f (durationDays st)) = Inr res" "ok res" "json res = Inr b"
    and "b_instructions b = Some (d # ds)"
    and "getLatestBlockhash w = Inr bh" and "snd (decode_instruction w d) = Inl e"
  shows "status (run_ui (handleDeposit w st) st) = failed_status (upload_error_message e)
     \<and> (\<forall>ev \<in> set (handleDeposit w st).
           \<not> is_build_event ev \<and> \<not> is_sign_event ev \<and> \<not> is_broadcast_event ev)"
  by (rule decode_failure_run [OF upload_decode_fails [OF assms]]) simp

lemma page_decode_failure_status:
  assumes "wallet_publicKey w = Some pk"
    and "fetch w (page_deposit_request pk) = Inr res" "ok res" "json res = Inr b"
    and "b_instructions b = Some (d # ds)"
    and "getLatestBlockhash w = Inr bh" and "snd (decode_instruction w d) = Inl e"
  shows "status (run_ui (page_handleDeposit w) pst) = failed_status (page_error_message e)
     \<and> (\<forall>ev \<in> set (page_handleDeposit w).
           \<not> is_build_event ev \<and> \<not> is_sign_event ev \<and> \<not> is_broadcast_event ev)"
  by (rule decode_failure_run [OF page_decode_fails [OF assms]]) simp

lemma bad_address_lib:
  "decode_instruction bad_address_world d = decode_instruction sample_world d"
  "decode_instruction bad_payload_world d = decode_instruction sample_world d"
  by (rule decode_instruction_cong; simp add: bad_address_world_def bad_payload_world_def)+

lemma decode_bad_address:
  "decode_instruction sample_world bad_address_descriptor =
     ([NewPublicKey ''SysvarRent111111111111111111111111111111111'',
       NewPublicKey ''tooShort''], Inl (Error ''Invalid public key input''))"
  by (simp add: decode_instruction_def emit_def sample_defs bad_address_descriptor_def)

lemma decode_bad_payload:
  "decode_instruction sample_world bad_payload_descriptor =
     ([NewPublicKey ''SysvarRent111111111111111111111111111111111'',
       NewPublicKey ''11111111111111111111111111111111'', BufferFrom ''!!!''],
      Inr (sample_instruction\<lparr>data := []\<rparr>))"
  by (simp add: decode_instruction_def emit_def sample_defs bad_payload_descriptor_def)

subsection \<open>The status of a run whose broadcast throws\<close>





subsection \<open>The duration stays positive\<close>

lemma apply_event_fields:
  "durationDays (apply_event e st) = durationDays st"
  "sel_file (apply_event e st) = sel_file st"
  by (cases e; simp)+

lemma run_ui_fields:
  "durationDays (run_ui es st) = durationDays st"
  "sel_file (run_ui es st) = sel_file st"
  by (induction es arbitrary: st; simp add: apply_event_fields)+

lemma to_double_positive: "0 < n \<Longrightarrow> js_gt (to_double n) 0"
  by (simp add: to_double_def)

lemma js_times_positive: "js_gt d 0 \<Longrightarrow> js_gt (js_times d 86400) 0"
  by (cases d) (simp_all add: to_double_positive)

lemma handleDurationChange_rejects:
  "\<not> js_gt (parseInt v) 0 \<Longrightarrow> handleDurationChange v st = st"
  by (simp add: handleDurationChange_def Let_def)

lemma handleDurationChange_accepts:
  "js_gt (parseInt v) 0 \<Longrightarrow> handleDurationChange v st = st\<lparr>durationDays := parseInt v\<rparr>"
  by (cases "parseInt v") (simp_all add: handleDurationChange_def Let_def)

lemma handleDurationChange_positive:
  "js_gt (durationDays st) 0 \<Longrightarrow> js_gt (durationDays (handleDurationChange v st)) 0"
  by (cases "js_gt (parseInt v) 0")
     (simp_all add: handleDurationChange_rejects handleDurationChange_accepts)

lemma upload_step_positive:
  "js_gt (durationDays st) 0 \<Longrightarrow> js_gt (durationDays (upload_step st a)) 0"
  by (cases a)
     (simp_all add: handleDurationChange_positive handleFileChange_def run_ui_fields
        split: option.splits list.splits)

lemma upload_session_positive: "js_gt (durationDays (upload_session acts)) 0"
proof (induction acts rule: rev_induct)
  case Nil
  show ?case by (simp add: upload_session_def initial_upload_state_def)
next
  case (snoc a acts)
  then show ?case by (simp add: upload_session_def upload_step_positive)
qed

subsection \<open>The requests to the backend\<close>

lemma build_sign_confirm_no_fetch:
  "build_sign_confirm w pk d = (es, r) \<Longrightarrow> Fetch req \<notin> set es"
  using build_sign_confirm_order [of w pk d es r] by auto

lemma upload_after_response_no_fetch:
  "upload_after_response w pk b = (es, r) \<Longrightarrow> Fetch req \<notin> set es"
  by (auto simp: upload_after_response_def
      split: option.splits list.splits prod.splits sum.splits
      dest: build_sign_confirm_no_fetch)

lemma page_after_response_no_fetch:
  "page_after_response w pk b = (es, r) \<Longrightarrow> Fetch req \<notin> set es"
  by (auto simp: page_after_response_def emit_def
      split: option.splits list.splits prod.splits sum.splits
      dest: build_sign_confirm_no_fetch)

lemma upload_try_fetch:
  "Fetch req \<in> set (fst (upload_try w pk f days)) \<Longrightarrow> req = upload_request pk f days"
  using upload_after_response_no_fetch [OF surjective_pairing]
  by (auto simp: upload_try_def emit_def split: sum.splits if_splits)

lemma page_try_fetch:
  "Fetch req \<in> set (fst (page_try w pk)) \<Longrightarrow> req = page_deposit_request pk"
  using page_after_response_no_fetch [OF surjective_pairing]
  by (auto simp: page_try_def emit_def split: sum.splits if_splits)

lemma upload_fetch_request:
  "Fetch req \<in> set (handleDeposit w st) \<Longrightarrow>
     \<exists>pk f. wallet_publicKey w = Some pk \<and> sel_file st = Some f
       \<and> req = upload_request pk f (durationDays st)"
  by (auto simp: handleDeposit_def split: option.splits if_splits
      dest!: catch_finally_events dest: upload_try_fetch)

lemma page_fetch_request:
  "Fetch req \<in> set (page_handleDeposit w) \<Longrightarrow>
     \<exists>pk. wallet_publicKey w = Some pk \<and> req = page_deposit_request pk"
  by (auto simp: page_handleDeposit_def split: option.splits if_splits
      dest!: catch_finally_events dest: page_try_fetch)

lemma parse_samples:
  "parseInt ''-3'' = Num (- 3)" "parseInt ''abc'' = NaN" "parseInt ''0'' = Num 0"
  "parseInt ''30'' = Num 30"
  by (simp_all add: parseInt_def Let_def is_white_space_def is_digit_def digit_value_def
      digits_value_def to_double_def)

lemma sample_session:
  "upload_session sample_actions = sample_upload_state\<lparr>durationDays := Num 30\<rparr>"
  by (simp add: upload_session_def sample_actions_def handleDurationChange_def parse_samples
      sample_upload_state_def)

lemma sample_session_run:
  "handleDeposit sample_world (sample_upload_state\<lparr>durationDays := Num 30\<rparr>) =
    [SetIsLoading True, SetStatus ''Uploading file & fetching deposit instruction...'',
     Fetch (UploadForm sample_file (Num 2592000) ''11111111111111111111111111111111''),
     ResJson, SetStatus ''Building transaction...'', GetLatestBlockhash ''confirmed'',
     NewPublicKey ''SysvarRent111111111111111111111111111111111'',
     NewPublicKey ''11111111111111111111111111111111'', BufferFrom ''AQID'',
     NewTransaction, TransactionAdd sample_instruction,
     SetStatus ''Signing and sending...'', SignTransaction sample_tx, Serialize,
     SendRawTransaction [1, 0, 1, 3] deposit_send_options,
     SetStatus ''Confirming transaction...'',
     ConfirmTransaction
       (Strategy ''5VERv8NMvzbJMEkV8xnrLkEaWRtSz9CosKDYjCJjBRnb''
          ''GHtXQBsoZHVnNFa9YevAzFr17DJjgHXk3ycTKD5xD3Zi'' 3090) ''confirmed'',
     SetStatus (confirmed_status ''5VERv8NMvzbJMEkV8xnrLkEaWRtSz9CosKDYjCJjBRnb''),
     SetIsLoading False]"
  by (simp add: sample_defs sample_run_defs)

section \<open>The claims\<close>

subsection \<open>C1: which instructions the built transaction holds\<close>

text \<open>
  C1, as amended: when the backend returns a non-empty list of descriptors, every
  transaction handed to the wallet holds the first instruction of the decoded list and no
  other: its instruction list is the prefix of length one of the decoded list, in the
  list's order. (For a list of one descriptor that is the whole list.)

  C1 as stated asks for every instruction of the list. With two descriptors returned, both
  of which decode, the run is confirmed and its transaction does not hold the second
  instruction.
\<close>

theorem built_tx_holds_first_instruction:
  "(wallet_publicKey w = Some pk \<and> sel_file st = Some f \<and> \<not> js_lt (durationDays st) 1
      \<and> fetch w (upload_request pk f (durationDays st)) = Inr res \<and> ok res \<and> json res = Inr b
      \<and> b_instructions b = Some ds \<and> ds \<noteq> []
    \<longrightarrow> (\<forall>tx. SignTransaction tx \<in> set (handleDeposit w st)
          \<longrightarrow> map Inr (instructions tx) = take 1 (map (\<lambda>d. snd (decode_instruction w d)) ds)))
   \<and> (wallet_publicKey w = Some pk
      \<and> fetch w (page_deposit_request pk) = Inr res \<and> ok res \<and> json res = Inr b
      \<and> b_instructions b = Some ds \<and> ds \<noteq> []
    \<longrightarrow> (\<forall>tx. SignTransaction tx \<in> set (page_handleDeposit w)
          \<longrightarrow> map Inr (instructions tx) = take 1 (map (\<lambda>d. snd (decode_instruction w d)) ds)))"
proof (cases ds)
  case Nil
  then show ?thesis by simp
next
  case (Cons d ds')
  show ?thesis
    using upload_first_descriptor [of w pk st f res b d ds']
      page_first_descriptor [of w pk res b d ds']
    unfolding Cons by fastforce
qed

theorem built_tx_holds_first_instruction_witness:
  "SignTransaction sample_tx \<in> set (handleDeposit two_descriptor_world sample_upload_state)
   \<and> map Inr (instructions sample_tx)
       = take 1 (map (\<lambda>d. snd (decode_instruction two_descriptor_world d))
                  [sample_descriptor, second_descriptor])
   \<and> SignTransaction sample_tx \<in> set (handleDeposit sample_world sample_upload_state)
   \<and> map Inr (instructions sample_tx)
       = map (\<lambda>d. snd (decode_instruction sample_world d)) [sample_descriptor]"
  using built_tx_holds_first_instruction
    [where w = two_descriptor_world and pk = sample_wallet_key and st = sample_upload_state
       and f = sample_file and res = "sample_response (Some [sample_descriptor, second_descriptor])"
       and b = "\<lparr>b_error = None, b_instructions = Some [sample_descriptor, second_descriptor]\<rparr>"
       and ds = "[sample_descriptor, second_descriptor]"]
  by (simp add: two_descriptor_run sample_run two_descriptor_world_lib decode_sample
      sample_tx_def)

theorem built_tx_omits_second_instruction_counterexample:
  "SignTransaction sample_tx \<in> set (handleDeposit two_descriptor_world sample_upload_state)
   \<and> snd (decode_instruction two_descriptor_world sample_descriptor) = Inr sample_instruction
   \<and> snd (decode_instruction two_descriptor_world second_descriptor) = Inr second_instruction
   \<and> instructions sample_tx \<noteq> [sample_instruction, second_instruction]
   \<and> second_instruction \<notin> set (instructions sample_tx)
   \<and> status (run_ui (handleDeposit two_descriptor_world sample_upload_state)
        sample_upload_state) = confirmed_status ''5VERv8NMvzbJMEkV8xnrLkEaWRtSz9CosKDYjCJjBRnb''"
  by (simp add: two_descriptor_run sample_run two_descriptor_world_lib decode_sample
      decode_second sample_tx_def second_instruction_def sample_instruction_def)

subsection \<open>C2: malformed descriptors\<close>

text \<open>
  C2, as amended: decoding a descriptor fails exactly when the \<open>PublicKey\<close> constructor
  rejects its program address or one of its account addresses, and the failure is that
  constructor's own error, with no record of the field it came from. \<open>handleDeposit\<close>
  then ends with the general "Failed:" status carrying the page's rendering of the error,
  and nothing is built, signed or sent. A descriptor whose addresses are all accepted
  decodes, whatever its payload string is: the accounts are all kept, in order and with
  their flags, and the payload is whatever \<open>Buffer.from\<close> makes of the string.

  C2 as stated also asks for a failure on a payload that is not valid base64. A descriptor
  with the payload \<open>!!!\<close> decodes, and the run is confirmed.
\<close>

theorem address_errors_reach_generic_failure:
  "(snd (decode_instruction w d) = Inl e
      \<longrightarrow> PublicKey_new w (d_programId d) = Inl e
          \<or> (\<exists>k \<in> set (d_keys d). PublicKey_new w (kd_pubkey k) = Inl e))
   \<and> (isl (PublicKey_new w (d_programId d))
        \<or> (\<exists>k \<in> set (d_keys d). isl (PublicKey_new w (kd_pubkey k)))
      \<longrightarrow> isl (snd (decode_instruction w d)))
   \<and> (\<not> isl (PublicKey_new w (d_programId d))
        \<and> (\<forall>k \<in> set (d_keys d). \<not> isl (PublicKey_new w (kd_pubkey k)))
      \<longrightarrow> \<not> isl (snd (decode_instruction w d)))
   \<and> (snd (decode_instruction w d) = Inr ix
      \<longrightarrow> PublicKey_new w (d_programId d) = Inr (programId ix)
          \<and> map (\<lambda>k. PublicKey_new w (kd_pubkey k)) (d_keys d)
              = map (\<lambda>m. Inr (pubkey m)) (keys ix)
          \<and> map kd_isSigner (d_keys d) = map isSigner (keys ix)
          \<and> map kd_isWritable (d_keys d) = map isWritable (keys ix)
          \<and> data ix = Buffer_from_base64 w (d_data d))
   \<and> (wallet_publicKey w = Some pk \<and> sel_file st = Some f \<and> \<not> js_lt (durationDays st) 1
        \<and> fetch w (upload_request pk f (durationDays st)) = Inr res \<and> ok res \<and> json res = Inr b
        \<and> b_instructions b = Some (d # ds)
        \<and> getLatestBlockhash w = Inr bh \<and> snd (decode_instruction w d) = Inl e
      \<longrightarrow> status (run_ui (handleDeposit w st) st) = failed_status (upload_error_message e)
          \<and> (\<forall>ev \<in> set (handleDeposit w st).
                \<not> is_build_event ev \<and> \<not> is_sign_event ev \<and> \<not> is_broadcast_event ev))
   \<and> (wallet_publicKey w = Some pk
        \<and> fetch w (page_deposit_request pk) = Inr res \<and> ok res \<and> json res = Inr b
        \<and> b_instructions b = Some (d # ds)
        \<and> getLatestBlockhash w = Inr bh \<and> snd (decode_instruction w d) = Inl e
      \<longrightarrow> status (run_ui (page_handleDeposit w) pst) = failed_status (page_error_message e)
          \<and> (\<forall>ev \<in> set (page_handleDeposit w).
                \<not> is_build_event ev \<and> \<not> is_sign_event ev \<and> \<not> is_broadcast_event ev))"
  using decode_instruction_error [of w d e] decode_instruction_bad [of w d]
    decode_instruction_good [of w d] decode_instruction_result [of w d ix]
    upload_decode_failure_status [of w pk st f res b d ds bh e]
    page_decode_failure_status [of w pk res b d ds bh e pst]
  by blast

theorem address_errors_reach_generic_failure_witness:
  "isl (PublicKey_new bad_address_world ''tooShort'')
   \<and> snd (decode_instruction bad_address_world bad_address_descriptor)
       = Inl (Error ''Invalid public key input'')
   \<and> status (run_ui (handleDeposit bad_address_world sample_upload_state) sample_upload_state)
       = failed_status ''Invalid public key input''
   \<and> status (run_ui (page_handleDeposit bad_address_world) initial_page_state)
       = failed_status ''Invalid public key input''
   \<and> snd (decode_instruction sample_world sample_descriptor) = Inr sample_instruction
   \<and> map kd_isSigner (d_keys sample_descriptor) = map isSigner (keys sample_instruction)
   \<and> data sample_instruction = Buffer_from_base64 sample_world (d_data sample_descriptor)"
proof -
  let ?b = "\<lparr>b_error = None, b_instructions = Some [bad_address_descriptor]\<rparr>"
  let ?bh = "\<lparr>blockhash = ''GHtXQBsoZHVnNFa9YevAzFr17DJjgHXk3ycTKD5xD3Zi'',
              lastValidBlockHeight = 3090\<rparr>"
  have hyps: "wallet_publicKey bad_address_world = Some sample_wallet_key"
    "sel_file sample_upload_state = Some sample_file"
    "\<not> js_lt (durationDays sample_upload_state) 1"
    "fetch bad_address_world (upload_request sample_wallet_key sample_file
        (durationDays sample_upload_state)) = Inr (sample_response (Some [bad_address_descriptor]))"
    "fetch bad_address_world (page_deposit_request sample_wallet_key)
       = Inr (sample_response (Some [bad_address_descriptor]))"
    "ok (sample_response (Some [bad_address_descriptor]))"
    "json (sample_response (Some [bad_address_descriptor])) = Inr ?b"
    "b_instructions ?b = Some (bad_address_descriptor # [])"
    "getLatestBlockhash bad_address_world = Inr ?bh"
    by (simp_all add: bad_address_world_def sample_world_def sample_upload_state_def
        handleFileChange_def initial_upload_state_def sample_response_def)
  have bad: "isl (PublicKey_new bad_address_world ''tooShort'')"
    by (simp add: bad_address_world_def sample_world_def sample_PublicKey_new_def)
  have dec: "snd (decode_instruction bad_address_world bad_address_descriptor)
      = Inl (Error ''Invalid public key input'')"
    by (simp add: bad_address_lib decode_bad_address)
  have msg: "upload_error_message (Error ''Invalid public key input'') = ''Invalid public key input''"
    "page_error_message (Error ''Invalid public key input'') = ''Invalid public key input''"
    by (simp_all add: upload_error_message_def page_error_message_def)
  from address_errors_reach_generic_failure
    [where w = bad_address_world and d = bad_address_descriptor
       and e = "Error ''Invalid public key input''" and pk = sample_wallet_key
       and st = sample_upload_state and f = sample_file
       and res = "sample_response (Some [bad_address_descriptor])"
       and b = ?b and ds = "[]" and pst = initial_page_state and bh = ?bh]
    hyps dec
  have run: "status (run_ui (handleDeposit bad_address_world sample_upload_state)
        sample_upload_state) = failed_status ''Invalid public key input''
     \<and> status (run_ui (page_handleDeposit bad_address_world) initial_page_state)
        = failed_status ''Invalid public key input''"
    unfolding msg by blast
  from address_errors_reach_generic_failure
    [where w = sample_world and d = sample_descriptor and ix = sample_instruction]
    decode_sample
  have good: "map kd_isSigner (d_keys sample_descriptor) = map isSigner (keys sample_instruction)
     \<and> data sample_instruction = Buffer_from_base64 sample_world (d_data sample_descriptor)"
    by blast
  from bad dec run good decode_sample show ?thesis by blast
qed

theorem bad_payload_is_accepted_counterexample:
  "\<not> spec_valid_base64 (d_data bad_payload_descriptor)
   \<and> snd (decode_instruction bad_payload_world bad_payload_descriptor)
       = Inr (sample_instruction\<lparr>data := []\<rparr>)
   \<and> status (run_ui (handleDeposit bad_payload_world sample_upload_state) sample_upload_state)
       = confirmed_status ''5VERv8NMvzbJMEkV8xnrLkEaWRtSz9CosKDYjCJjBRnb''
   \<and> status (run_ui (page_handleDeposit bad_payload_world) initial_page_state)
       = confirmed_status ''5VERv8NMvzbJMEkV8xnrLkEaWRtSz9CosKDYjCJjBRnb''"
  by (simp add: bad_address_lib decode_bad_payload spec_valid_base64_def
      bad_payload_descriptor_def bad_payload_world_def sample_defs sample_run_defs
      is_base64_char_def)

subsection \<open>C3: when the blockhash is requested\<close>

text \<open>
  C3, as amended: in every run of \<open>handleDeposit\<close>, on both pages, the latest blockhash
  is requested after the backend's response has been read and before the instruction is
  decoded, the transaction built, signed, sent or confirmed. No blockhash request follows
  an event of those later stages, and no request to the backend follows the blockhash
  request.
\<close>

theorem blockhash_before_decoding:
  "all_before is_blockhash_event is_later_stage_event (handleDeposit w st)
   \<and> all_before is_fetch_event is_blockhash_event (handleDeposit w st)
   \<and> all_before is_blockhash_event is_later_stage_event (page_handleDeposit w)
   \<and> all_before is_fetch_event is_blockhash_event (page_handleDeposit w)"
proof -
  have later: "\<And>s. \<not> is_later_stage_event (SetStatus s)"
    "\<And>b. \<not> is_later_stage_event (SetIsLoading b)" "\<not> is_later_stage_event ConsoleError"
    by (simp_all add: is_later_stage_event_def)
  have u1: "all_before is_blockhash_event is_later_stage_event (handleDeposit w st)"
    using upload_try_order later
    by (auto simp: handleDeposit_def split: option.splits intro!: catch_finally_order)
  have u2: "all_before is_fetch_event is_blockhash_event (handleDeposit w st)"
    using upload_try_order
    by (auto simp: handleDeposit_def split: option.splits intro!: catch_finally_order)
  have p1: "all_before is_blockhash_event is_later_stage_event (page_handleDeposit w)"
    using page_try_order later
    by (auto simp: page_handleDeposit_def split: option.splits intro!: catch_finally_order)
  have p2: "all_before is_fetch_event is_blockhash_event (page_handleDeposit w)"
    using page_try_order
    by (auto simp: page_handleDeposit_def split: option.splits intro!: catch_finally_order)
  from u1 u2 p1 p2 show ?thesis by simp
qed

theorem blockhash_before_decoding_witness:
  "all_before is_blockhash_event is_later_stage_event
      (handleDeposit sample_world sample_upload_state)
   \<and> GetLatestBlockhash ''confirmed'' \<in> set (handleDeposit sample_world sample_upload_state)
   \<and> NewPublicKey ''11111111111111111111111111111111''
        \<in> set (handleDeposit sample_world sample_upload_state)"
  using blockhash_before_decoding [of sample_world sample_upload_state]
  by (simp add: sample_run)

text \<open>
  C3 as stated asks for the blockhash to be requested after decoding. In the sample run
  the blockhash is requested and the decoding events come after it.
\<close>

theorem blockhash_after_decoding_counterexample:
  "GetLatestBlockhash ''confirmed'' \<in> set (handleDeposit sample_world sample_upload_state)
   \<and> \<not> all_before is_decode_event is_blockhash_event
          (handleDeposit sample_world sample_upload_state)"
  by (simp add: sample_run)

subsection \<open>C4: an empty or missing instruction list\<close>

text \<open>
  C4: when the backend answers with success and its instruction list is missing or empty,
  \<open>handleDeposit\<close> (on both pages) ends with the status "No instruction data received
  from backend", releases \<open>isLoading\<close>, and produces no blockhash request and no event
  of the decoding, building, signing, broadcast or confirmation stages. That status differs
  from the one a failed \<open>fetch\<close> ends with, which is the "Failed:" line with the
  thrown error's message.
\<close>

theorem empty_response_distinct_failure:
  "(wallet_publicKey w = Some pk \<and> sel_file st = Some f \<and> \<not> js_lt (durationDays st) 1
      \<and> fetch w (upload_request pk f (durationDays st)) = Inr res \<and> ok res \<and> json res = Inr b
      \<and> (b_instructions b = None \<or> b_instructions b = Some [])
    \<longrightarrow> status (run_ui (handleDeposit w st) st) = no_instruction_status
        \<and> \<not> isLoading (run_ui (handleDeposit w st) st)
        \<and> (\<forall>e \<in> set (handleDeposit w st).
              \<not> is_blockhash_event e \<and> \<not> is_later_stage_event e))
   \<and> (wallet_publicKey w = Some pk
      \<and> fetch w (page_deposit_request pk) = Inr res \<and> ok res \<and> json res = Inr b
      \<and> (b_instructions b = None \<or> b_instructions b = Some [])
    \<longrightarrow> status (run_ui (page_handleDeposit w) pst) = no_instruction_status
        \<and> \<not> isLoading (run_ui (page_handleDeposit w) pst)
        \<and> (\<forall>e \<in> set (page_handleDeposit w).
              \<not> is_blockhash_event e \<and> \<not> is_later_stage_event e))
   \<and> (wallet_publicKey w' = Some pk' \<and> sel_file st = Some f' \<and> \<not> js_lt (durationDays st) 1
      \<and> fetch w' (upload_request pk' f' (durationDays st)) = Inl e
    \<longrightarrow> status (run_ui (handleDeposit w' st) st) = failed_status (upload_error_message e)
        \<and> failed_status (upload_error_message e) \<noteq> no_instruction_status)
   \<and> (wallet_publicKey w' = Some pk' \<and> fetch w' (page_deposit_request pk') = Inl e
    \<longrightarrow> status (run_ui (page_handleDeposit w') pst) = failed_status (page_error_message e)
        \<and> failed_status (page_error_message e) \<noteq> no_instruction_status)"
proof (intro conjI impI; (elim conjE)?)
  assume h: "wallet_publicKey w = Some pk" "sel_file st = Some f" "\<not> js_lt (durationDays st) 1"
    "fetch w (upload_request pk f (durationDays st)) = Inr res" "ok res" "json res = Inr b"
    "b_instructions b = None \<or> b_instructions b = Some []"
  have tr: "handleDeposit w st =
     [SetIsLoading True, SetStatus ''Uploading file & fetching deposit instruction...'',
      Fetch (upload_request pk f (durationDays st)), ResJson,
      SetStatus no_instruction_status, SetIsLoading False]"
    using h by (simp add: handleDeposit_response upload_after_response_empty catch_finally_def)
  show "status (run_ui (handleDeposit w st) st) = no_instruction_status" by (simp add: tr)
  show "\<not> isLoading (run_ui (handleDeposit w st) st)" by (simp add: tr)
  show "\<forall>e \<in> set (handleDeposit w st). \<not> is_blockhash_event e \<and> \<not> is_later_stage_event e"
    by (simp add: tr is_later_stage_event_def)
next
  assume h: "wallet_publicKey w = Some pk"
    "fetch w (page_deposit_request pk) = Inr res" "ok res" "json res = Inr b"
    "b_instructions b = None \<or> b_instructions b = Some []"
  have tr: "page_handleDeposit w =
     [SetIsLoading True, SetStatus ''Fetching deposit instruction...'',
      Fetch (page_deposit_request pk), ResJson, ConsoleLog,
      SetStatus no_instruction_status, SetIsLoading False]"
    using h by (simp add: page_handleDeposit_response page_after_response_empty catch_finally_def)
  show "status (run_ui (page_handleDeposit w) pst) = no_instruction_status" by (simp add: tr)
  show "\<not> isLoading (run_ui (page_handleDeposit w) pst)" by (simp add: tr)
  show "\<forall>e \<in> set (page_handleDeposit w). \<not> is_blockhash_event e \<and> \<not> is_later_stage_event e"
    by (simp add: tr is_later_stage_event_def)
next
  assume h: "wallet_publicKey w' = Some pk'" "sel_file st = Some f'" "\<not> js_lt (durationDays st) 1"
    "fetch w' (upload_request pk' f' (durationDays st)) = Inl e"
  show "status (run_ui (handleDeposit w' st) st) = failed_status (upload_error_message e)"
    using h by (simp add: handleDeposit_fetch_throws)
  show "failed_status (upload_error_message e) \<noteq> no_instruction_status"
    using no_instruction_not_failed by metis
next
  assume h: "wallet_publicKey w' = Some pk'" "fetch w' (page_deposit_request pk') = Inl e"
  show "status (run_ui (page_handleDeposit w') pst) = failed_status (page_error_message e)"
    using h by (simp add: page_handleDeposit_fetch_throws)
  show "failed_status (page_error_message e) \<noteq> no_instruction_status"
    using no_instruction_not_failed by metis
qed

theorem empty_response_distinct_failure_witness:
  "status (run_ui (handleDeposit empty_response_world sample_upload_state) sample_upload_state)
     = no_instruction_status
   \<and> handleDeposit empty_response_world sample_upload_state =
       [SetIsLoading True, SetStatus ''Uploading file & fetching deposit instruction...'',
        Fetch (UploadForm sample_file (Num 604800) ''11111111111111111111111111111111''),
        ResJson, SetStatus no_instruction_status, SetIsLoading False]
   \<and> status (run_ui (page_handleDeposit empty_response_world) initial_page_state)
     = no_instruction_status
   \<and> status (run_ui (handleDeposit offline_world sample_upload_state) sample_upload_state)
     = failed_status ''Failed to fetch''
   \<and> status (run_ui (page_handleDeposit offline_world) initial_page_state)
     = failed_status ''Failed to fetch''
   \<and> failed_status ''Failed to fetch'' \<noteq> no_instruction_status"
  using empty_response_distinct_failure
    [where w = empty_response_world and pk = sample_wallet_key and st = sample_upload_state
       and f = sample_file and res = "sample_response (Some [])"
       and b = "\<lparr>b_error = None, b_instructions = Some []\<rparr>" and pst = initial_page_state
       and w' = offline_world and pk' = sample_wallet_key and f' = sample_file
       and e = "Error ''Failed to fetch''"]
  by (simp add: empty_response_world_def offline_world_def sample_defs upload_error_message_def
      page_error_message_def handleDeposit_def upload_try_def upload_request_def emit_def
      upload_after_response_def catch_finally_def to_double_def)

subsection \<open>C5: an expired transaction and a rejected one\<close>


subsection \<open>C6: preflight on every broadcast\<close>

text \<open>
  C6: every \<open>sendRawTransaction\<close> call of \<open>handleDeposit\<close> (both pages) and of
  \<open>initializeConfig\<close> passes \<open>skipPreflight: false\<close> with the preflight commitment
  \<open>confirmed\<close>, whatever the collaborators answer.
\<close>

theorem broadcast_never_skips_preflight:
  "\<forall>e \<in> set (handleDeposit w st) \<union> set (page_handleDeposit w) \<union> set (initializeConfig w).
     \<forall>raw opts. e = SendRawTransaction raw opts
       \<longrightarrow> \<not> skipPreflight opts \<and> preflightCommitment opts = ''confirmed''"
proof (intro ballI allI impI)
  fix e raw opts
  assume mem: "e \<in> set (handleDeposit w st) \<union> set (page_handleDeposit w) \<union> set (initializeConfig w)"
    and e: "e = SendRawTransaction raw opts"
  have "opts = deposit_send_options"
  proof -
    consider "e \<in> set (handleDeposit w st)" | "e \<in> set (page_handleDeposit w)"
      | "e \<in> set (initializeConfig w)" using mem by blast
    then show ?thesis
    proof cases
      case 1
      then show ?thesis unfolding e
        by (auto simp: handleDeposit_def is_plain_simps split: option.splits if_splits
            dest!: catch_finally_events dest: upload_try_plain)
    next
      case 2
      then show ?thesis unfolding e
        by (auto simp: page_handleDeposit_def is_plain_simps split: option.splits if_splits
            dest!: catch_finally_events dest: page_try_plain)
    next
      case 3
      then show ?thesis unfolding e
        by (auto simp: initializeConfig_def is_plain_simps split: option.splits if_splits
            dest!: catch_finally_events dest: init_try_plain)
    qed
  qed
  then show "\<not> skipPreflight opts \<and> preflightCommitment opts = ''confirmed''"
    by (simp add: deposit_send_options_def)
qed

theorem broadcast_never_skips_preflight_witness:
  "SendRawTransaction [1, 0, 1, 3] deposit_send_options
     \<in> set (handleDeposit sample_world sample_upload_state)
       \<union> set (page_handleDeposit sample_world) \<union> set (initializeConfig sample_world)
   \<and> \<not> skipPreflight deposit_send_options
   \<and> preflightCommitment deposit_send_options = ''confirmed''"
  using broadcast_never_skips_preflight [of sample_world sample_upload_state]
  by (simp add: sample_run)

subsection \<open>C7: the guards before the first request\<close>

text \<open>
  C7: when the wallet has no public key, or (on the upload page) no file is selected,
  \<open>handleDeposit\<close> only sets a validation message: the run has no network request and
  no wallet prompt, and \<open>isLoading\<close> is as it was. The fixed-request page has no
  file, so only the wallet guard applies to it.
\<close>

theorem guards_stop_before_io:
  "(wallet_publicKey w = None \<or> sel_file st = None
    \<longrightarrow> (handleDeposit w st = [SetStatus ''Connect your wallet first.'']
           \<or> handleDeposit w st = [SetStatus ''Please select a file first.''])
        \<and> (\<forall>e \<in> set (handleDeposit w st). \<not> is_io_event e)
        \<and> isLoading (run_ui (handleDeposit w st) st) = isLoading st)
   \<and> (wallet_publicKey w = None
    \<longrightarrow> page_handleDeposit w = [SetStatus ''Connect your wallet first.'']
        \<and> isLoading (run_ui (page_handleDeposit w) pst) = isLoading pst)"
  by (auto simp: handleDeposit_def page_handleDeposit_def is_io_event_def is_network_event_def
      split: option.splits)

theorem guards_stop_before_io_witness:
  "wallet_publicKey disconnected_world = None
   \<and> handleDeposit disconnected_world sample_upload_state = [SetStatus ''Connect your wallet first.'']
   \<and> sel_file initial_upload_state = None
   \<and> handleDeposit sample_world initial_upload_state = [SetStatus ''Please select a file first.'']
   \<and> page_handleDeposit disconnected_world = [SetStatus ''Connect your wallet first.'']
   \<and> \<not> isLoading (run_ui (handleDeposit sample_world initial_upload_state) initial_upload_state)"
  using guards_stop_before_io [of disconnected_world sample_upload_state initial_page_state]
    guards_stop_before_io [of sample_world initial_upload_state initial_page_state]
  by (simp add: disconnected_world_def sample_defs handleDeposit_def page_handleDeposit_def)

subsection \<open>C8: the in-flight guard\<close>

text \<open>
  C8: in every run of \<open>handleDeposit\<close> (both pages), \<open>isLoading\<close> is true at every
  network request and wallet prompt, and a run with such an event starts by setting it; a
  run that sets \<open>isLoading\<close> ends by clearing it, whether the \<open>try\<close> block
  returned, reported a failure or threw; and the submit button is disabled whenever
  \<open>isLoading\<close> is true.
\<close>

theorem in_flight_guard:
  "guard_held g (handleDeposit w st)
   \<and> (\<forall>e \<in> set (handleDeposit w st). is_io_event e \<longrightarrow> hd (handleDeposit w st) = SetIsLoading True)
   \<and> (SetIsLoading True \<in> set (handleDeposit w st)
        \<longrightarrow> last (handleDeposit w st) = SetIsLoading False
            \<and> \<not> isLoading (run_ui (handleDeposit w st) st))
   \<and> (isLoading st \<longrightarrow> upload_submit_disabled w st)
   \<and> guard_held g (page_handleDeposit w)
   \<and> (\<forall>e \<in> set (page_handleDeposit w). is_io_event e \<longrightarrow> hd (page_handleDeposit w) = SetIsLoading True)
   \<and> (SetIsLoading True \<in> set (page_handleDeposit w)
        \<longrightarrow> last (page_handleDeposit w) = SetIsLoading False
            \<and> \<not> isLoading (run_ui (page_handleDeposit w) pst))
   \<and> (isLoading pst \<longrightarrow> page_submit_disabled w pst)"
  using guarded_trace [OF handleDeposit_cases, of g w st st]
    guarded_trace [OF page_handleDeposit_cases, of g w pst]
  by (simp add: upload_submit_disabled_def page_submit_disabled_def)

theorem in_flight_guard_witness:
  "guard_held False (handleDeposit sample_world sample_upload_state)
   \<and> Fetch (UploadForm sample_file (Num 604800) ''11111111111111111111111111111111'')
        \<in> set (handleDeposit sample_world sample_upload_state)
   \<and> hd (handleDeposit sample_world sample_upload_state) = SetIsLoading True
   \<and> last (handleDeposit sample_world sample_upload_state) = SetIsLoading False
   \<and> \<not> isLoading (run_ui (handleDeposit sample_world sample_upload_state) sample_upload_state)
   \<and> isLoading (sample_upload_state\<lparr>isLoading := True\<rparr>)
   \<and> upload_submit_disabled sample_world (sample_upload_state\<lparr>isLoading := True\<rparr>)"
proof -
  have "isLoading (sample_upload_state\<lparr>isLoading := True\<rparr>)" by simp
  moreover from this
  have "upload_submit_disabled sample_world (sample_upload_state\<lparr>isLoading := True\<rparr>)"
    using in_flight_guard [of False sample_world "sample_upload_state\<lparr>isLoading := True\<rparr>"]
    by blast
  moreover have "guard_held False (handleDeposit sample_world sample_upload_state)
   \<and> Fetch (UploadForm sample_file (Num 604800) ''11111111111111111111111111111111'')
        \<in> set (handleDeposit sample_world sample_upload_state)
   \<and> hd (handleDeposit sample_world sample_upload_state) = SetIsLoading True
   \<and> last (handleDeposit sample_world sample_upload_state) = SetIsLoading False
   \<and> \<not> isLoading (run_ui (handleDeposit sample_world sample_upload_state) sample_upload_state)"
    using in_flight_guard [of False sample_world sample_upload_state]
    by (simp add: sample_run is_io_event_def is_network_event_def)
  ultimately show ?thesis by blast
qed

subsection \<open>C9: the duration that is sent\<close>

text \<open>
  C9: in every state the upload page can reach from its initial state by choosing files,
  typing into the duration field and running \<open>handleDeposit\<close>, the number of days is
  greater than zero, and every request \<open>handleDeposit\<close> sends carries that number
  times 86400, which is greater than zero, together with a file whose size is not negative.
  An input that \<open>parseInt\<close> turns into NaN or into a number that is not greater than
  zero leaves the state as it was. The fixed-request page always sends the duration 30 and
  the size 10043.
\<close>

theorem submitted_duration_is_positive:
  "(\<forall>req. Fetch req \<in> set (handleDeposit w (upload_session acts))
      \<longrightarrow> (\<exists>pk f. req = UploadForm f (js_times (durationDays (upload_session acts)) 86400)
                      (toBase58 pk))
          \<and> js_gt (rq_durationSeconds req) 0 \<and> 0 \<le> int (file_size (rq_file req)))
   \<and> js_gt (durationDays (upload_session acts)) 0
   \<and> (\<not> js_gt (parseInt v) 0 \<longrightarrow> handleDurationChange v st = st)
   \<and> (js_gt (durationDays st) 0 \<longrightarrow> js_gt (durationDays (handleDurationChange v st)) 0)
   \<and> (\<forall>req. Fetch req \<in> set (page_handleDeposit w)
      \<longrightarrow> rq_duration req = 30 \<and> rq_size req = 10043)"
proof (intro conjI allI impI)
  fix req assume f: "Fetch req \<in> set (handleDeposit w (upload_session acts))"
  from upload_fetch_request [OF f] obtain pk f where
    req: "req = upload_request pk f (durationDays (upload_session acts))" by blast
  then show "\<exists>pk f. req = UploadForm f (js_times (durationDays (upload_session acts)) 86400)
                      (toBase58 pk)"
    by (auto simp: upload_request_def)
  show "js_gt (rq_durationSeconds req) 0"
    by (simp add: req upload_request_def js_times_positive upload_session_positive)
  show "0 \<le> int (file_size (rq_file req))" by simp
next
  show "js_gt (durationDays (upload_session acts)) 0" by (rule upload_session_positive)
next
  assume "\<not> js_gt (parseInt v) 0"
  then show "handleDurationChange v st = st" by (rule handleDurationChange_rejects)
next
  assume "js_gt (durationDays st) 0"
  then show "js_gt (durationDays (handleDurationChange v st)) 0"
    by (rule handleDurationChange_positive)
next
  fix req assume "Fetch req \<in> set (page_handleDeposit w)"
  from page_fetch_request [OF this] show "rq_duration req = 30"
    by (auto simp: page_deposit_request_def)
next
  fix req assume "Fetch req \<in> set (page_handleDeposit w)"
  from page_fetch_request [OF this] show "rq_size req = 10043"
    by (auto simp: page_deposit_request_def)
qed

theorem submitted_duration_is_positive_witness:
  "Fetch (UploadForm sample_file (Num 2592000) ''11111111111111111111111111111111'')
     \<in> set (handleDeposit sample_world (upload_session sample_actions))
   \<and> js_gt (Num 2592000) 0
   \<and> durationDays (upload_session sample_actions) = Num 30
   \<and> parseInt ''-3'' = Num (- 3)
   \<and> handleDurationChange ''-3'' initial_upload_state = initial_upload_state
   \<and> js_gt (durationDays (handleDurationChange ''30'' initial_upload_state)) 0
   \<and> Fetch (page_deposit_request sample_wallet_key) \<in> set (page_handleDeposit sample_world)
   \<and> rq_duration (page_deposit_request sample_wallet_key) = 30"
proof -
  note t = submitted_duration_is_positive
    [where w = sample_world and acts = sample_actions and v = "''-3''"
       and st = initial_upload_state]
  have run: "Fetch (UploadForm sample_file (Num 2592000) ''11111111111111111111111111111111'')
     \<in> set (handleDeposit sample_world (upload_session sample_actions))"
    by (simp add: sample_session sample_session_run)
  have page: "Fetch (page_deposit_request sample_wallet_key) \<in> set (page_handleDeposit sample_world)"
    by (simp add: sample_defs sample_run_defs)
  have neg: "\<not> js_gt (parseInt ''-3'') 0" by (simp add: parse_samples)
  have pos: "js_gt (durationDays initial_upload_state) 0" by (simp add: initial_upload_state_def)
  from t run have a: "js_gt (rq_durationSeconds
      (UploadForm sample_file (Num 2592000) ''11111111111111111111111111111111'')) 0" by blast
  from t neg have b: "handleDurationChange ''-3'' initial_upload_state = initial_upload_state"
    by blast
  from submitted_duration_is_positive [where v = "''30''" and st = initial_upload_state,
      THEN conjunct2, THEN conjunct2, THEN conjunct2, THEN conjunct1] pos
  have c: "js_gt (durationDays (handleDurationChange ''30'' initial_upload_state)) 0" by blast
  from t page have d: "rq_duration (page_deposit_request sample_wallet_key) = 30" by blast
  from run a b c d page show ?thesis by (simp add: sample_session parse_samples)
qed

subsection \<open>C10: only the first descriptor is used\<close>


end
